theory Spec2Isabelle
  imports Complex_Main "HOL-Library.Multiset"
begin

section \<open>JavaScript values and numbers\<close>

text \<open>
  The handlers of \<^verbatim>\<open>server.js\<close> read fields of a JSON request body. A field is any
  JavaScript value; \<open>JUndefined\<close> is an absent field. \<open>JOther t\<close> is an array or an object,
  with the text \<open>t\<close> that the database driver sends for it. A \<open>JNum\<close> carries the (finite)
  IEEE-754 double as the rational number it denotes; JSON cannot carry NaN, and a numeral
  beyond the range of the doubles is left out. A Number that the program computes can be
  NaN: \<open>number\<close> is a finite double or NaN.
\<close>

datatype jsv = JUndefined | JNull | JBool bool | JNum rat | JStr string | JOther string

datatype number = Fin rat | NaN

text \<open>The operand test of \<^verbatim>\<open>!x\<close>: the falsy values of JavaScript.\<close>

fun falsy :: "jsv \<Rightarrow> bool" where
  "falsy JUndefined = True"
| "falsy JNull = True"
| "falsy (JBool b) = (\<not> b)"
| "falsy (JNum d) = (d = 0)"
| "falsy (JStr s) = (s = [])"
| "falsy (JOther t) = False"

subsection \<open>Binary64 arithmetic\<close>

text \<open>
  \<open>round_double\<close> rounds a rational to the nearest number with a 53-bit significand, ties
  to even: the rounding every arithmetic operation on a JavaScript Number performs. The
  exponent range of binary64 is not modelled (no overflow to Infinity, no subnormals): the
  amounts of this program are prices below \<open>10^8\<close> times 32-bit quantities.
\<close>

function ilog2 :: "int \<Rightarrow> int" where
  "ilog2 n = (if n < 2 then 0 else 1 + ilog2 (n div 2))"
  by pat_completeness auto
termination
  by (relation "measure nat") auto

declare ilog2.simps [simp del]

function ilog10 :: "int \<Rightarrow> int" where
  "ilog10 n = (if n < 10 then 0 else 1 + ilog10 (n div 10))"
  by pat_completeness auto
termination
  by (relation "measure nat") auto

declare ilog10.simps [simp del]

text \<open>
  For \<open>0 < x\<close>, \<open>floor_log2 x\<close> is the integer \<open>e\<close> with \<open>2^e \<le> x < 2^(e + 1)\<close>, and
  \<open>floor_log10\<close> is the same to the base ten.
\<close>

definition floor_log2 :: "rat \<Rightarrow> int" where
  "floor_log2 x = (if 1 \<le> x then ilog2 \<lfloor>x\<rfloor> else - (1 + ilog2 (\<lceil>1 / x\<rceil> - 1)))"

definition floor_log10 :: "rat \<Rightarrow> int" where
  "floor_log10 x = (if 1 \<le> x then ilog10 \<lfloor>x\<rfloor> else - (1 + ilog10 (\<lceil>1 / x\<rceil> - 1)))"

definition pow2 :: "int \<Rightarrow> rat" where
  "pow2 e = (if 0 \<le> e then 2 ^ nat e else 1 / 2 ^ nat (- e))"

definition pow10 :: "int \<Rightarrow> rat" where
  "pow10 e = (if 0 \<le> e then 10 ^ nat e else 1 / 10 ^ nat (- e))"

definition round_half_even :: "rat \<Rightarrow> int" where
  "round_half_even m =
     (let f = \<lfloor>m\<rfloor>; d = m - of_int f
      in if d < 1 / 2 then f else if 1 / 2 < d then f + 1
         else if even f then f else f + 1)"

definition round_double :: "rat \<Rightarrow> rat" where
  "round_double x =
     (if x = 0 then 0
      else let e = floor_log2 \<bar>x\<bar> - 52
           in of_int (round_half_even (x / pow2 e)) * pow2 e)"

text \<open>
  \<^verbatim>\<open>a * b\<close> and \<^verbatim>\<open>a + b\<close> on Numbers: the exact result, rounded once; NaN when an
  operand is NaN.
\<close>

fun js_mul :: "number \<Rightarrow> number \<Rightarrow> number" where
  "js_mul (Fin a) (Fin b) = Fin (round_double (a * b))"
| "js_mul (Fin a) NaN = NaN"
| "js_mul NaN y = NaN"

fun js_add :: "number \<Rightarrow> number \<Rightarrow> number" where
  "js_add (Fin a) (Fin b) = Fin (round_double (a + b))"
| "js_add (Fin a) NaN = NaN"
| "js_add NaN y = NaN"

text \<open>
  A \<^verbatim>\<open>NUMERIC(10, 2)\<close> value is its number of hundredths, or the NaN that the column
  type admits. The driver returns it as a string such as \<^verbatim>\<open>"25.50"\<close> or \<^verbatim>\<open>"NaN"\<close>;
  \<^verbatim>\<open>parseFloat\<close> of that string is the double nearest to the decimal, or NaN.
\<close>

datatype numeric = Cents int | NumericNaN

fun parseFloat :: "numeric \<Rightarrow> number" where
  "parseFloat (Cents c) = Fin (round_double (of_int c / 100))"
| "parseFloat NumericNaN = NaN"

text \<open>
  \<^verbatim>\<open>String(d)\<close>, which the driver applies to a Number parameter: the decimal with the
  fewest significant digits \<open>k\<close> that reads back as \<open>d\<close>; of two such decimals the one
  closer to \<open>d\<close>, and on a tie the one with the even last digit (ECMAScript,
  Number::toString). \<open>decimal_candidate k x\<close> is that decimal with \<open>k\<close> digits, if there
  is one, and \<open>number_decimal d\<close> is the value of the shortest. Seventeen digits always
  suffice.
\<close>

definition decimal_candidate :: "int \<Rightarrow> rat \<Rightarrow> rat option" where
  "decimal_candidate k x =
     (let u = pow10 (floor_log10 x + 1 - k);
          s = \<lfloor>x / u\<rfloor>;
          lo = of_int s * u;
          hi = of_int (s + 1) * u;
          ok_lo = (round_double lo = x);
          ok_hi = (round_double hi = x)
      in if ok_lo \<and> ok_hi then
           (if x - lo < hi - x then Some lo else if hi - x < x - lo then Some hi
            else if even s then Some lo else Some hi)
         else if ok_lo then Some lo else if ok_hi then Some hi else None)"

function shortest_decimal :: "int \<Rightarrow> rat \<Rightarrow> rat" where
  "shortest_decimal k x =
     (case decimal_candidate k x of
        Some c \<Rightarrow> c
      | None \<Rightarrow> if k < 17 then shortest_decimal (k + 1) x else x)"
  by pat_completeness auto
termination
  by (relation "measure (\<lambda>(k, x). nat (17 - k))") auto

declare shortest_decimal.simps [simp del]

definition number_decimal :: "rat \<Rightarrow> rat" where
  "number_decimal d = (if d = 0 then 0 else sgn d * shortest_decimal 1 \<bar>d\<bar>)"

text \<open>The value of the text that the driver sends for a Number parameter.\<close>

fun number_param :: "number \<Rightarrow> number" where
  "number_param (Fin d) = Fin (number_decimal d)"
| "number_param NaN = NaN"

section \<open>The store\<close>

subsection \<open>Tables\<close>

text \<open>
  The four relations of the schema, each a list of rows. Timestamps are left out.
  \<open>oi_order_id = None\<close> is the \<^verbatim>\<open>NULL\<close> order reference of a line that is still in
  the cart. The three \<open>_seq\<close> fields are the last values handed out by the \<^verbatim>\<open>SERIAL\<close>
  sequences; a sequence is not part of any transaction.
\<close>

record user_row =
  u_id :: int
  u_email :: string

record product =
  p_id :: int
  p_name :: string
  p_description :: "string option"
  p_price :: numeric
  p_stock :: int
  p_image_url :: "string option"

record order_row =
  o_id :: int
  o_user_id :: int
  o_total_amount :: numeric
  o_status :: string

record order_item =
  oi_id :: int
  oi_order_id :: "int option"
  oi_product_id :: int
  oi_quantity :: int
  oi_price :: numeric

record db =
  users :: "user_row list"
  products :: "product list"
  orders :: "order_row list"
  order_items :: "order_item list"
  products_id_seq :: int
  orders_id_seq :: int
  order_items_id_seq :: int

subsection \<open>Errors of the store and input of typed parameters\<close>

text \<open>
  \<open>StoreFailure\<close> is a statement that fails for a reason outside the data: the connection
  is lost, the transaction conflicts with another one.
\<close>

datatype db_error =
    InvalidTextRepresentation
  | NumericValueOutOfRange
  | StringDataRightTruncation
  | NotNullViolation
  | ForeignKeyViolation
  | InFailedSqlTransaction
  | StoreFailure

text \<open>
  What the program does not contain is a parameter: the verification of a JSON web token
  (\<^verbatim>\<open>jwt.verify\<close> with the server's secret), the text the driver sends for a Number bound
  to a text column, the store's readers of integer and numeric text (the numeric reader
  yields a finite value or NaN), and the order in which the store returns the rows of a
  query that has no \<^verbatim>\<open>ORDER BY\<close>. That order is given by a rank of each row of the
  join of a cart line with its product, which may depend on the whole database: the rows
  come by ascending rank, rows of equal rank in the order of the lines. Every order of the
  rows is the order of some rank. \<open>checkout_rank\<close> is the rank for the query of the
  checkout, \<open>cart_rank\<close> the rank for the query of \<^verbatim>\<open>GET /api/cart\<close>.
\<close>

record jwt_payload =
  userId :: int
  email :: string

record env =
  jwt_verify :: "string \<Rightarrow> jwt_payload option"
  number_text :: "rat \<Rightarrow> string"
  int4_in :: "string \<Rightarrow> int option"
  numeric_in :: "string \<Rightarrow> number option"
  checkout_rank :: "db \<Rightarrow> order_item \<times> product \<Rightarrow> nat"
  cart_rank :: "db \<Rightarrow> order_item \<times> product \<Rightarrow> nat"

definition in_int4 :: "int \<Rightarrow> bool" where
  "in_int4 n = (- 2147483648 \<le> n \<and> n \<le> 2147483647)"

text \<open>
  A parameter bound to an \<^verbatim>\<open>INTEGER\<close> column. The text of an integral Number is its
  decimal numeral; the text of any other Number, of a boolean, an array or an object is
  not an integer. \<open>Inr None\<close> is \<^verbatim>\<open>NULL\<close>.
\<close>

fun to_int4 :: "env \<Rightarrow> jsv \<Rightarrow> db_error + int option" where
  "to_int4 E JUndefined = Inr None"
| "to_int4 E JNull = Inr None"
| "to_int4 E (JBool b) = Inl InvalidTextRepresentation"
| "to_int4 E (JNum d) =
     (if of_int \<lfloor>d\<rfloor> \<noteq> d then Inl InvalidTextRepresentation
      else if in_int4 \<lfloor>d\<rfloor> then Inr (Some \<lfloor>d\<rfloor>) else Inl NumericValueOutOfRange)"
| "to_int4 E (JStr s) =
     (case int4_in E s of
        None \<Rightarrow> Inl InvalidTextRepresentation
      | Some n \<Rightarrow> if in_int4 n then Inr (Some n) else Inl NumericValueOutOfRange)"
| "to_int4 E (JOther t) = Inl InvalidTextRepresentation"

text \<open>
  \<^verbatim>\<open>NUMERIC(10, 2)\<close>: a finite value is rounded to two decimals, half away from zero,
  and must stay below \<open>10^8\<close> in absolute value; NaN is stored as it is.
\<close>

definition round_half_away :: "rat \<Rightarrow> int" where
  "round_half_away r = (if 0 \<le> r then \<lfloor>r + 1 / 2\<rfloor> else - \<lfloor>- r + 1 / 2\<rfloor>)"

fun numeric_10_2 :: "number \<Rightarrow> db_error + numeric" where
  "numeric_10_2 (Fin r) =
     (let c = round_half_away (r * 100)
      in if \<bar>c\<bar> < 10000000000 then Inr (Cents c) else Inl NumericValueOutOfRange)"
| "numeric_10_2 NaN = Inr NumericNaN"

fun to_numeric :: "env \<Rightarrow> jsv \<Rightarrow> db_error + number option" where
  "to_numeric E JUndefined = Inr None"
| "to_numeric E JNull = Inr None"
| "to_numeric E (JBool b) = Inl InvalidTextRepresentation"
| "to_numeric E (JNum d) = Inr (Some (number_param (Fin d)))"
| "to_numeric E (JStr s) =
     (case numeric_in E s of
        None \<Rightarrow> Inl InvalidTextRepresentation
      | Some r \<Rightarrow> Inr (Some r))"
| "to_numeric E (JOther t) = Inl InvalidTextRepresentation"

fun to_text :: "env \<Rightarrow> jsv \<Rightarrow> string option" where
  "to_text E JUndefined = None"
| "to_text E JNull = None"
| "to_text E (JBool b) = Some (if b then ''true'' else ''false'')"
| "to_text E (JNum d) = Some (number_text E d)"
| "to_text E (JStr s) = Some s"
| "to_text E (JOther t) = Some t"

text \<open>
  \<^verbatim>\<open>VARCHAR(255)\<close>: a longer string is an error unless the excess is all spaces, which
  the store cuts off.
\<close>

definition varchar_255 :: "string \<Rightarrow> db_error + string" where
  "varchar_255 s =
     (if length s \<le> 255 then Inr s
      else if \<forall>c \<in> set (drop 255 s). c = CHR '' '' then Inr (take 255 s)
      else Inl StringDataRightTruncation)"

section \<open>Requests and responses\<close>

record request =
  authorization :: "string option"
  param_id :: string
  req_body :: "string \<Rightarrow> jsv"

record cart_row =
  cr_product_id :: int
  cr_quantity :: int
  cr_price :: numeric
  cr_product_name :: string
  cr_image_url :: "string option"

record order_line =
  ol_product_id :: int
  ol_name :: string
  ol_quantity :: int
  ol_price :: numeric

record order_view =
  ov_order_id :: int
  ov_total_amount :: numeric
  ov_status :: string
  ov_items :: "order_line list"

text \<open>
  The total of a checkout answer is a Number; JSON writes a NaN as \<^verbatim>\<open>null\<close>.
\<close>

datatype body =
    Message string
  | ProductBody string product
  | ItemBody string order_item
  | CartBody "cart_row list"
  | CheckoutBody string int number
  | OrdersBody "order_view list"
  | NoBody

record response =
  status :: nat
  body :: body

definition reply :: "nat \<Rightarrow> body \<Rightarrow> response" where
  "reply c b = \<lparr>status = c, body = b\<rparr>"

text \<open>
  A promise that is rejected while nothing handles it ends the process of the server.
  Then no response is sent: \<open>no_response\<close> stands for this, and its status 0 is no status
  of HTTP. The store rolls back a transaction whose connection is gone.
\<close>

definition no_response :: response where
  "no_response = reply 0 NoBody"

section \<open>The middleware \<^verbatim>\<open>verifyToken\<close>\<close>

text \<open>\<^verbatim>\<open>s.split(' ')\<close>: the pieces between single spaces; never an empty list.\<close>

fun split_on :: "char \<Rightarrow> string \<Rightarrow> string list" where
  "split_on c [] = [[]]"
| "split_on c (x # xs) =
     (if x = c then [] # split_on c xs
      else (case split_on c xs of
              [] \<Rightarrow> [[x]]
            | w # ws \<Rightarrow> (x # w) # ws))"

text \<open>
  \<^verbatim>\<open>authHeader && authHeader.split(' ')[1]\<close>. \<open>None\<close> is a token that \<^verbatim>\<open>== null\<close>: the
  header is missing, or it has no second piece. An empty header value is falsy, so the
  conjunction yields the empty string itself.
\<close>

definition bearer_token :: "string option \<Rightarrow> string option" where
  "bearer_token authHeader =
     (case authHeader of
        None \<Rightarrow> None
      | Some h \<Rightarrow>
          if h = [] then Some []
          else (case split_on CHR '' '' h of
                  _ # t # _ \<Rightarrow> Some t
                | _ \<Rightarrow> None))"

definition verifyToken ::
  "env \<Rightarrow> (jwt_payload \<Rightarrow> request \<Rightarrow> db \<Rightarrow> response \<times> db) \<Rightarrow> request \<Rightarrow> db \<Rightarrow> response \<times> db"
where
  "verifyToken E next req s =
     (case bearer_token (authorization req) of
        None \<Rightarrow> (reply 401 (Message ''Authorization token is missing.''), s)
      | Some token \<Rightarrow>
          (case jwt_verify E token of
             None \<Rightarrow> (reply 403 (Message ''Invalid token.''), s)
           | Some user \<Rightarrow> next user req s))"

section \<open>Catalog handlers\<close>

definition and_then :: "'e + 'a \<Rightarrow> ('a \<Rightarrow> 'e + 'b) \<Rightarrow> 'e + 'b" where
  "and_then r f = (case r of Inl e \<Rightarrow> Inl e | Inr a \<Rightarrow> f a)"

definition varchar_255_opt :: "string option \<Rightarrow> db_error + string option" where
  "varchar_255_opt v =
     (case v of None \<Rightarrow> Inr None | Some t \<Rightarrow> and_then (varchar_255 t) (\<lambda>t'. Inr (Some t')))"

definition numeric_10_2_opt :: "number option \<Rightarrow> db_error + numeric option" where
  "numeric_10_2_opt v =
     (case v of None \<Rightarrow> Inr None | Some r \<Rightarrow> and_then (numeric_10_2 r) (\<lambda>c. Inr (Some c)))"

text \<open>
  \<^verbatim>\<open>INSERT INTO products(name, description, price, stock, image_url) ... RETURNING ...\<close>.
  A parameter that the store cannot read, or that does not fit the length or the
  precision of its column, fails the statement before it takes a value of the sequence.
  A row that is then refused for a \<^verbatim>\<open>NULL\<close> in a \<^verbatim>\<open>NOT NULL\<close> column has taken one.
\<close>

definition insert_product ::
  "env \<Rightarrow> jsv \<Rightarrow> jsv \<Rightarrow> jsv \<Rightarrow> jsv \<Rightarrow> jsv \<Rightarrow> db \<Rightarrow> (db_error + product) \<times> db"
where
  "insert_product E name description price stock image_url s =
     (case and_then (to_numeric E price) (\<lambda>pr.
           and_then (to_int4 E stock) (\<lambda>st.
           and_then (varchar_255_opt (to_text E name)) (\<lambda>n.
           and_then (numeric_10_2_opt pr) (\<lambda>c.
           and_then (varchar_255_opt (to_text E image_url)) (\<lambda>im.
             Inr (n, c, st, im)))))) of
        Inl e \<Rightarrow> (Inl e, s)
      | Inr (n, c, st, im) \<Rightarrow>
          (let i = products_id_seq s + 1;
               s1 = s\<lparr>products_id_seq := i\<rparr>
           in case (n, c, st) of
                (Some n', Some c', Some st') \<Rightarrow>
                  (let row = \<lparr>p_id = i, p_name = n', p_description = to_text E description,
                              p_price = c', p_stock = st', p_image_url = im\<rparr>
                   in (Inr row, s1\<lparr>products := products s1 @ [row]\<rparr>))
              | _ \<Rightarrow> (Inl NotNullViolation, s1)))"

text \<open>\<^verbatim>\<open>POST /api/products\<close> (server.js, lines 144 to 169), behind \<open>verifyToken\<close>.\<close>

definition add_product :: "env \<Rightarrow> jwt_payload \<Rightarrow> request \<Rightarrow> db \<Rightarrow> response \<times> db" where
  "add_product E user req s =
     (let name = req_body req ''name'';
          description = req_body req ''description'';
          price = req_body req ''price'';
          stock = req_body req ''stock'';
          image_url = req_body req ''image_url''
      in if falsy name \<or> falsy price \<or> falsy stock then
           (reply 400 (Message ''Name, price, and stock are required.''), s)
         else
           (case insert_product E name description price stock image_url s of
              (Inr row, s') \<Rightarrow> (reply 201 (ProductBody ''Product added successfully!'' row), s')
            | (Inl e, s') \<Rightarrow> (reply 500 (Message ''Internal server error.''), s')))"

text \<open>
  \<^verbatim>\<open>UPDATE products SET name = COALESCE($1, name), ... WHERE id = $6 RETURNING *\<close>:
  \<open>update_row\<close> is the new row of one product, \<open>update_where\<close> runs over the table and
  yields the new table with the returned rows, or the error that fails the statement.
\<close>

definition coalesce :: "'a option \<Rightarrow> 'a \<Rightarrow> 'a" where
  "coalesce v old = (case v of None \<Rightarrow> old | Some x \<Rightarrow> x)"

definition update_row ::
  "string option \<Rightarrow> string option \<Rightarrow> number option \<Rightarrow> int option \<Rightarrow> string option \<Rightarrow> product
     \<Rightarrow> db_error + product"
where
  "update_row name description price stock image_url p =
     and_then (case name of None \<Rightarrow> Inr (p_name p) | Some n \<Rightarrow> varchar_255 n) (\<lambda>n'.
     and_then (case price of None \<Rightarrow> Inr (p_price p) | Some pr \<Rightarrow> numeric_10_2 pr) (\<lambda>c.
     and_then (case image_url of None \<Rightarrow> Inr (p_image_url p) | Some u \<Rightarrow> varchar_255_opt (Some u))
       (\<lambda>im.
       Inr \<lparr>p_id = p_id p, p_name = n',
            p_description = (case description of None \<Rightarrow> p_description p | Some t \<Rightarrow> Some t),
            p_price = c, p_stock = coalesce stock (p_stock p), p_image_url = im\<rparr>)))"

fun update_where ::
  "(product \<Rightarrow> bool) \<Rightarrow> (product \<Rightarrow> db_error + product) \<Rightarrow> product list
     \<Rightarrow> db_error + product list \<times> product list"
where
  "update_where P f [] = Inr ([], [])"
| "update_where P f (p # ps) =
     (if P p then
        and_then (f p) (\<lambda>p'.
        and_then (update_where P f ps) (\<lambda>(tbl, ret). Inr (p' # tbl, p' # ret)))
      else
        and_then (update_where P f ps) (\<lambda>(tbl, ret). Inr (p # tbl, ret)))"

text \<open>\<^verbatim>\<open>PUT /api/products/:id\<close> (server.js, lines 172 to 204), behind \<open>verifyToken\<close>.\<close>

definition update_product :: "env \<Rightarrow> jwt_payload \<Rightarrow> request \<Rightarrow> db \<Rightarrow> response \<times> db" where
  "update_product E user req s =
     (let name = req_body req ''name'';
          description = req_body req ''description'';
          price = req_body req ''price'';
          stock = req_body req ''stock'';
          image_url = req_body req ''image_url'';
          result =
            and_then (to_numeric E price) (\<lambda>pr.
            and_then (to_int4 E stock) (\<lambda>st.
            and_then (to_int4 E (JStr (param_id req))) (\<lambda>i.
              update_where (\<lambda>p. Some (p_id p) = i)
                (update_row (to_text E name) (to_text E description) pr st (to_text E image_url))
                (products s))))
      in case result of
           Inl e \<Rightarrow> (reply 500 (Message ''Internal server error.''), s)
         | Inr (tbl, rows) \<Rightarrow>
             (case rows of
                [] \<Rightarrow> (reply 404 (Message ''Product not found.''), s)
              | row # _ \<Rightarrow>
                  (reply 200 (ProductBody ''Product updated successfully!'' row),
                   s\<lparr>products := tbl\<rparr>)))"

section \<open>The cart\<close>

text \<open>
  \<^verbatim>\<open>INSERT INTO order_items(order_id, product_id, quantity, price) VALUES(NULL, $1, $2, $3)\<close>.
  The price is the string just read from the catalog, so it is stored as it is.
\<close>

definition insert_order_item ::
  "env \<Rightarrow> jsv \<Rightarrow> jsv \<Rightarrow> numeric \<Rightarrow> db \<Rightarrow> (db_error + order_item) \<times> db"
where
  "insert_order_item E product_id quantity price s =
     (case to_int4 E product_id of
        Inl e \<Rightarrow> (Inl e, s)
      | Inr pid \<Rightarrow>
          (case to_int4 E quantity of
             Inl e \<Rightarrow> (Inl e, s)
           | Inr qty \<Rightarrow>
               (let i = order_items_id_seq s + 1;
                    s1 = s\<lparr>order_items_id_seq := i\<rparr>
                in case (pid, qty) of
                     (Some pid', Some qty') \<Rightarrow>
                       if pid' \<in> set (map p_id (products s1)) then
                         (let row = \<lparr>oi_id = i, oi_order_id = None, oi_product_id = pid',
                                     oi_quantity = qty', oi_price = price\<rparr>
                          in (Inr row, s1\<lparr>order_items := order_items s1 @ [row]\<rparr>))
                       else (Inl ForeignKeyViolation, s1)
                   | _ \<Rightarrow> (Inl NotNullViolation, s1))))"

text \<open>\<^verbatim>\<open>POST /api/cart\<close> (server.js, lines 230 to 264), behind \<open>verifyToken\<close>.\<close>

definition add_to_cart :: "env \<Rightarrow> jwt_payload \<Rightarrow> request \<Rightarrow> db \<Rightarrow> response \<times> db" where
  "add_to_cart E user req s =
     (let product_id = req_body req ''product_id'';
          quantity = req_body req ''quantity'';
          user_id = userId user
      in if falsy product_id \<or> falsy quantity then
           (reply 400 (Message ''Product ID and quantity are required.''), s)
         else
           (case to_int4 E product_id of
              Inl e \<Rightarrow> (reply 500 (Message ''Internal server error.''), s)
            | Inr pid \<Rightarrow>
                (case filter (\<lambda>p. Some (p_id p) = pid) (products s) of
                   [] \<Rightarrow> (reply 404 (Message ''Product not found.''), s)
                 | p # _ \<Rightarrow>
                     (let productPrice = p_price p
                      in case insert_order_item E product_id quantity productPrice s of
                           (Inr row, s') \<Rightarrow>
                             (reply 201 (ItemBody ''Item added to cart successfully!'' row), s')
                         | (Inl e, s') \<Rightarrow>
                             (reply 500 (Message ''Internal server error.''), s')))))"

text \<open>
  The rows of \<^verbatim>\<open>order_items oi JOIN products p ON oi.product_id = p.id WHERE oi.order_id
  IS NULL\<close>, which both the cart listing and the checkout select from: every line without
  an order with its product. \<open>join_rows\<close> lists them line by line; a query returns them
  in the order of its rank.
\<close>

definition join_rows :: "db \<Rightarrow> (order_item \<times> product) list" where
  "join_rows s =
     concat (map
       (\<lambda>oi. map (\<lambda>p. (oi, p)) (filter (\<lambda>p. oi_product_id oi = p_id p) (products s)))
       (filter (\<lambda>oi. oi_order_id oi = None) (order_items s)))"

text \<open>\<^verbatim>\<open>GET /api/cart\<close> (server.js, lines 267 to 288).\<close>

definition cart_row_of :: "order_item \<times> product \<Rightarrow> cart_row" where
  "cart_row_of r =
     (case r of (oi, p) \<Rightarrow>
        \<lparr>cr_product_id = oi_product_id oi, cr_quantity = oi_quantity oi,
         cr_price = oi_price oi, cr_product_name = p_name p, cr_image_url = p_image_url p\<rparr>)"

definition get_cart :: "env \<Rightarrow> jwt_payload \<Rightarrow> request \<Rightarrow> db \<Rightarrow> response \<times> db" where
  "get_cart E user req s =
     (reply 200 (CartBody (map cart_row_of (sort_key (cart_rank E s) (join_rows s)))), s)"

section \<open>Checkout\<close>

subsection \<open>The transaction of one connection\<close>

text \<open>
  The checkout opens a connection of its own and sends \<^verbatim>\<open>BEGIN\<close>. \<open>work\<close> is the database
  as the transaction sees it. A statement that fails puts the transaction in the aborted
  state, in which the store refuses every statement until the transaction ends.
  A transaction that ends without a commit, by \<^verbatim>\<open>ROLLBACK\<close> or because its connection is
  closed, leaves the tables as they were at \<^verbatim>\<open>BEGIN\<close>; the sequences keep the values they
  reached. \<^verbatim>\<open>COMMIT\<close> of an aborted transaction is a rollback. The requests are taken one
  at a time: no other connection writes between \<^verbatim>\<open>BEGIN\<close> and the end.
\<close>

record txn =
  work :: db
  aborted :: bool

definition begin_txn :: "db \<Rightarrow> txn" where
  "begin_txn s = \<lparr>work = s, aborted = False\<rparr>"

definition rollback :: "db \<Rightarrow> txn \<Rightarrow> db" where
  "rollback s t =
     s\<lparr>products_id_seq := products_id_seq (work t),
       orders_id_seq := orders_id_seq (work t),
       order_items_id_seq := order_items_id_seq (work t)\<rparr>"

definition commit :: "db \<Rightarrow> txn \<Rightarrow> db" where
  "commit s t = (if aborted t then rollback s t else work t)"

text \<open>
  The statements that the handler sends after \<^verbatim>\<open>BEGIN\<close>; \<open>UpdateStock k\<close> is the stock
  update of the \<open>k\<close>-th cart item, counted from 0, and \<open>RollbackInCatch\<close> the rollback of
  the \<^verbatim>\<open>catch\<close> block. A predicate on them says which statements the store fails for a
  reason outside the data.
\<close>

datatype stmt =
    SelectCart
  | UpdateStock nat
  | Rollback
  | InsertOrder
  | BindItems
  | Commit
  | RollbackInCatch

subsection \<open>The statements of the checkout\<close>

record cart_item =
  ci_id :: int
  ci_product_id :: int
  ci_quantity :: int
  ci_price :: numeric
  ci_stock :: int

text \<open>
  \<^verbatim>\<open>SELECT oi.id, oi.product_id, oi.quantity, p.price, p.stock FROM order_items oi
  JOIN products p ON oi.product_id = p.id WHERE oi.order_id IS NULL\<close>, in the order of
  the store.
\<close>

definition cart_item_of :: "order_item \<times> product \<Rightarrow> cart_item" where
  "cart_item_of r =
     (case r of (oi, p) \<Rightarrow>
        \<lparr>ci_id = oi_id oi, ci_product_id = oi_product_id oi, ci_quantity = oi_quantity oi,
         ci_price = p_price p, ci_stock = p_stock p\<rparr>)"

definition select_cart_items :: "env \<Rightarrow> db \<Rightarrow> cart_item list" where
  "select_cart_items E s = map cart_item_of (sort_key (checkout_rank E s) (join_rows s))"

text \<open>
  \<^verbatim>\<open>UPDATE products SET stock = stock - $1 WHERE id = $2\<close>. The result is what the
  promise of the query settles to: \<open>None\<close> when it is fulfilled, the error when it is
  rejected. The stock is a 32-bit integer. \<open>fail\<close> says that the store fails the
  statement for a reason outside the data.
\<close>

definition update_stock :: "bool \<Rightarrow> int \<Rightarrow> int \<Rightarrow> txn \<Rightarrow> db_error option \<times> txn" where
  "update_stock fail quantity product_id t =
     (if aborted t then (Some InFailedSqlTransaction, t)
      else if fail then (Some StoreFailure, t\<lparr>aborted := True\<rparr>)
      else if \<exists>p \<in> set (products (work t)).
                p_id p = product_id \<and> \<not> in_int4 (p_stock p - quantity)
      then (Some NumericValueOutOfRange, t\<lparr>aborted := True\<rparr>)
      else (None,
            t\<lparr>work := (work t)\<lparr>products :=
                 map (\<lambda>p. if p_id p = product_id then p\<lparr>p_stock := p_stock p - quantity\<rparr> else p)
                   (products (work t))\<rparr>\<rparr>))"

text \<open>
  \<^verbatim>\<open>INSERT INTO orders(user_id, total_amount, status) VALUES($1, $2, $3) RETURNING id\<close>.
  The total is a Number: the driver sends its text, the store rounds it to the two
  decimals of the column. A total that does not fit the column fails the statement before
  it takes a value of the sequence; a user that does not exist fails it after.
\<close>

definition insert_order ::
  "bool \<Rightarrow> int \<Rightarrow> number \<Rightarrow> string \<Rightarrow> txn \<Rightarrow> (db_error + int) \<times> txn"
where
  "insert_order fail user_id total_amount st t =
     (if aborted t then (Inl InFailedSqlTransaction, t)
      else if fail then (Inl StoreFailure, t\<lparr>aborted := True\<rparr>)
      else
        (case numeric_10_2 (number_param total_amount) of
           Inl e \<Rightarrow> (Inl e, t\<lparr>aborted := True\<rparr>)
         | Inr c \<Rightarrow>
             (let i = orders_id_seq (work t) + 1;
                  w1 = (work t)\<lparr>orders_id_seq := i\<rparr>
              in if user_id \<in> set (map u_id (users w1)) then
                   (Inr i,
                    \<lparr>work = w1\<lparr>orders := orders w1 @
                              [\<lparr>o_id = i, o_user_id = user_id, o_total_amount = c,
                                o_status = st\<rparr>]\<rparr>,
                     aborted = False\<rparr>)
                 else (Inl ForeignKeyViolation, \<lparr>work = w1, aborted = True\<rparr>))))"

text \<open>\<^verbatim>\<open>UPDATE order_items SET order_id = $1 WHERE order_id IS NULL\<close>\<close>

definition bind_order_items :: "bool \<Rightarrow> int \<Rightarrow> txn \<Rightarrow> db_error option \<times> txn" where
  "bind_order_items fail orderId t =
     (if aborted t then (Some InFailedSqlTransaction, t)
      else if fail then (Some StoreFailure, t\<lparr>aborted := True\<rparr>)
      else (None,
            t\<lparr>work := (work t)\<lparr>order_items :=
                 map (\<lambda>oi. if oi_order_id oi = None then oi\<lparr>oi_order_id := Some orderId\<rparr> else oi)
                   (order_items (work t))\<rparr>\<rparr>))"

subsection \<open>The handler\<close>

text \<open>
  The loop of lines 326 to 336, from the \<open>k\<close>-th item on. It leaves either at the first
  item that asks for more than the stock read with it, or at the end with the total; in
  both cases with the promises of the stock updates sent so far. The loop does not wait
  for an update: it keeps the promise and goes on. Each update is sent when the loop
  reaches it and the connection runs its queries in the order they were sent, so the
  update has run, and its promise is settled, before any later statement is answered;
  \<open>stockUpdates\<close> holds what each promise settles to.
\<close>

datatype loop_exit = InsufficientStock int | Verified number

fun verify_loop ::
  "(stmt \<Rightarrow> bool) \<Rightarrow> cart_item list \<Rightarrow> nat \<Rightarrow> number \<Rightarrow> db_error option list \<Rightarrow> txn
     \<Rightarrow> loop_exit \<times> db_error option list \<times> txn"
where
  "verify_loop F [] k totalAmount stockUpdates t = (Verified totalAmount, stockUpdates, t)"
| "verify_loop F (item # items) k totalAmount stockUpdates t =
     (if ci_quantity item > ci_stock item then
        (InsufficientStock (ci_product_id item), stockUpdates, t)
      else
        (case update_stock (F (UpdateStock k)) (ci_quantity item) (ci_product_id item) t of
           (r, t') \<Rightarrow>
             verify_loop F items (Suc k)
               (js_add totalAmount
                  (js_mul (parseFloat (ci_price item)) (Fin (of_int (ci_quantity item)))))
               (stockUpdates @ [r]) t'))"

text \<open>The decimal numeral of an integer, for the template string of the rejection.\<close>

fun show_nat :: "nat \<Rightarrow> string" where
  "show_nat n =
     (if n < 10 then [''0123456789'' ! n]
      else show_nat (n div 10) @ [''0123456789'' ! (n mod 10)])"

declare show_nat.simps [simp del]

definition show_int :: "int \<Rightarrow> string" where
  "show_int i = (if i < 0 then CHR ''-'' # show_nat (nat (- i)) else show_nat (nat i))"

definition internal_error :: response where
  "internal_error = reply 500 (Message ''Internal server error.'')"

text \<open>
  The \<^verbatim>\<open>catch\<close> block of lines 363 to 368, entered with the transaction \<open>t\<close>: it sends
  \<^verbatim>\<open>ROLLBACK\<close> and answers 500. When this rollback fails too, the error leaves the
  handler, nothing handles it and the process ends without a response. Either way the
  transaction ends without a commit.
\<close>

definition catch_block :: "(stmt \<Rightarrow> bool) \<Rightarrow> db \<Rightarrow> txn \<Rightarrow> response \<times> db" where
  "catch_block F s t =
     (if F RollbackInCatch then (no_response, rollback s t)
      else (internal_error, rollback s t))"

text \<open>
  \<^verbatim>\<open>POST /api/checkout\<close> (server.js, lines 291 to 374), behind \<open>verifyToken\<close>, with the
  statements \<open>F\<close> that the store fails for a reason outside the data.

  The promise of a stock update is pushed on \<^verbatim>\<open>stockUpdates\<close> at lines 333 to 335 and
  is neither awaited nor caught there; \<^verbatim>\<open>Promise.all\<close> at line 353 comes after the
  handler has awaited two later statements. The store answers the statements in the
  order they were sent, so a stock update that fails is rejected before any later
  statement is answered, while nothing handles the rejection: the process ends, no
  \<^verbatim>\<open>ROLLBACK\<close> and no response is sent, and the store ends the transaction without a
  commit. When no stock update has failed, every promise that \<^verbatim>\<open>Promise.all\<close> awaits is
  fulfilled. \<open>rejected\<close> says that some promise of a list is rejected.
\<close>

definition rejected :: "db_error option list \<Rightarrow> bool" where
  "rejected promises = (\<exists>r \<in> set promises. r \<noteq> None)"

definition checkout_under ::
  "(stmt \<Rightarrow> bool) \<Rightarrow> env \<Rightarrow> jwt_payload \<Rightarrow> request \<Rightarrow> db \<Rightarrow> response \<times> db"
where
  "checkout_under F E user req s =
     (let user_id = userId user;
          t0 = begin_txn s
      in if F SelectCart then catch_block F s t0
         else
           (let cartItems = select_cart_items E (work t0)
            in if cartItems = [] then
                 (if F Rollback then catch_block F s t0
                  else (reply 400 (Message ''Your cart is empty.''), rollback s t0))
               else
                 (case verify_loop F cartItems 0 (Fin 0) [] t0 of
                    (exit, stockUpdates, t1) \<Rightarrow>
                      if rejected stockUpdates then (no_response, rollback s t1)
                      else
                        (case exit of
                           InsufficientStock product_id \<Rightarrow>
                             if F Rollback then catch_block F s t1
                             else
                               (reply 400 (Message
                                  (''Insufficient stock for product ID ''
                                     @ show_int product_id @ ''.'')),
                                rollback s t1)
                         | Verified totalAmount \<Rightarrow>
                             (case insert_order (F InsertOrder) user_id totalAmount
                                     ''completed'' t1 of
                                (Inl e, t2) \<Rightarrow> catch_block F s t2
                              | (Inr orderId, t2) \<Rightarrow>
                                  (case bind_order_items (F BindItems) orderId t2 of
                                     (Some e, t3) \<Rightarrow> catch_block F s t3
                                   | (None, t3) \<Rightarrow>
                                       if F Commit then catch_block F s t3
                                       else
                                         (reply 200
                                            (CheckoutBody ''Checkout successful!'' orderId
                                               totalAmount),
                                          commit s t3)))))))"

text \<open>The checkout when the store fails no statement for a reason outside the data.\<close>

definition checkout :: "env \<Rightarrow> jwt_payload \<Rightarrow> request \<Rightarrow> db \<Rightarrow> response \<times> db" where
  "checkout E = checkout_under (\<lambda>st. False) E"

section \<open>Order history\<close>

text \<open>
  \<^verbatim>\<open>GET /api/orders\<close> (server.js, lines 377 to 407): the orders of the user that have
  at least one line, each with its lines joined with their products; a line shows its own
  price. Rows carry no timestamp here: an order is created after every order before it in
  the table, so newest first is the table in reverse.
\<close>

definition order_lines :: "db \<Rightarrow> int \<Rightarrow> order_line list" where
  "order_lines s order_id =
     concat (map
       (\<lambda>oi. map
          (\<lambda>p. \<lparr>ol_product_id = p_id p, ol_name = p_name p, ol_quantity = oi_quantity oi,
                 ol_price = oi_price oi\<rparr>)
          (filter (\<lambda>p. oi_product_id oi = p_id p) (products s)))
       (filter (\<lambda>oi. oi_order_id oi = Some order_id) (order_items s)))"

definition get_orders :: "jwt_payload \<Rightarrow> request \<Rightarrow> db \<Rightarrow> response \<times> db" where
  "get_orders user req s =
     (let user_id = userId user
      in (reply 200 (OrdersBody
            (map (\<lambda>row. \<lparr>ov_order_id = o_id row, ov_total_amount = o_total_amount row,
                          ov_status = o_status row, ov_items = order_lines s (o_id row)\<rparr>)
               (filter (\<lambda>row. o_user_id row = user_id \<and> order_lines s (o_id row) \<noteq> [])
                  (rev (orders s))))), s))"

section \<open>The protected routes\<close>

definition api_add_product :: "env \<Rightarrow> request \<Rightarrow> db \<Rightarrow> response \<times> db" where
  "api_add_product E = verifyToken E (add_product E)"

definition api_update_product :: "env \<Rightarrow> request \<Rightarrow> db \<Rightarrow> response \<times> db" where
  "api_update_product E = verifyToken E (update_product E)"

definition api_add_to_cart :: "env \<Rightarrow> request \<Rightarrow> db \<Rightarrow> response \<times> db" where
  "api_add_to_cart E = verifyToken E (add_to_cart E)"

definition api_get_cart :: "env \<Rightarrow> request \<Rightarrow> db \<Rightarrow> response \<times> db" where
  "api_get_cart E = verifyToken E (get_cart E)"

definition api_checkout :: "env \<Rightarrow> request \<Rightarrow> db \<Rightarrow> response \<times> db" where
  "api_checkout E = verifyToken E (checkout E)"

definition api_get_orders :: "env \<Rightarrow> request \<Rightarrow> db \<Rightarrow> response \<times> db" where
  "api_get_orders E = verifyToken E get_orders"

section \<open>Notions used to state the properties\<close>

text \<open>
  The total as the loop of the checkout accumulates it, from a starting value: every
  product and every sum is rounded to a double.
\<close>

definition js_total :: "number \<Rightarrow> cart_item list \<Rightarrow> number" where
  "js_total t items =
     foldl (\<lambda>t item. js_add t (js_mul (parseFloat (ci_price item)) (Fin (of_int (ci_quantity item)))))
       t items"

text \<open>
  The sum of quantity times price over the items in exact decimal arithmetic, as the
  store computes with \<^verbatim>\<open>NUMERIC\<close> values: a NaN price makes the sum NaN.
\<close>

fun exact_add :: "number \<Rightarrow> number \<Rightarrow> number" where
  "exact_add (Fin a) (Fin b) = Fin (a + b)"
| "exact_add (Fin a) NaN = NaN"
| "exact_add NaN y = NaN"

fun line_amount :: "cart_item \<Rightarrow> number" where
  "line_amount item =
     (case ci_price item of
        Cents c \<Rightarrow> Fin (of_int (ci_quantity item) * (of_int c / 100))
      | NumericNaN \<Rightarrow> NaN)"

fun exact_total :: "cart_item list \<Rightarrow> number" where
  "exact_total [] = Fin 0"
| "exact_total (item # items) = exact_add (line_amount item) (exact_total items)"

text \<open>
  A price that is a whole number within the range of the column, and the number of whole
  units of a price.
\<close>

fun whole_price :: "numeric \<Rightarrow> bool" where
  "whole_price (Cents c) = (100 dvd c \<and> \<bar>c\<bar> < 10000000000)"
| "whole_price NumericNaN = False"

fun units :: "numeric \<Rightarrow> int" where
  "units (Cents c) = c div 100"
| "units NumericNaN = 0"

text \<open>The quantity that the items ask of one product, all its lines together.\<close>

definition requested :: "cart_item list \<Rightarrow> int \<Rightarrow> int" where
  "requested items pid =
     (\<Sum>item\<leftarrow>items. if ci_product_id item = pid then ci_quantity item else 0)"

text \<open>The stock decrement of one cart item, and of all items one after the other.\<close>

definition decrement :: "cart_item \<Rightarrow> product list \<Rightarrow> product list" where
  "decrement item ps =
     map (\<lambda>p. if p_id p = ci_product_id item then p\<lparr>p_stock := p_stock p - ci_quantity item\<rparr> else p) ps"

definition decrement_all :: "cart_item list \<Rightarrow> product list \<Rightarrow> product list" where
  "decrement_all items ps = foldl (\<lambda>ps item. decrement item ps) ps items"

text \<open>
  The stock updates of the items, run one after the other on the products, all stay within
  the 32 bits of the stock column.
\<close>

fun decrements_fit :: "cart_item list \<Rightarrow> product list \<Rightarrow> bool" where
  "decrements_fit [] ps = True"
| "decrements_fit (item # items) ps =
     ((\<forall>p \<in> set ps. p_id p = ci_product_id item \<longrightarrow> in_int4 (p_stock p - ci_quantity item))
      \<and> decrements_fit items (decrement item ps))"

text \<open>The binding of every line that has no order to the order \<open>orderId\<close>.\<close>

definition bind_lines :: "int \<Rightarrow> order_item list \<Rightarrow> order_item list" where
  "bind_lines orderId ois =
     map (\<lambda>oi. if oi_order_id oi = None then oi\<lparr>oi_order_id := Some orderId\<rparr> else oi) ois"

section \<open>Sample data\<close>

text \<open>
  The database after the schema script, \<^verbatim>\<open>database/seed_data.sql\<close> and the registration
  of two users; prices in hundredths.
\<close>

definition seed_db :: db where
  "seed_db =
     \<lparr>users = [\<lparr>u_id = 1, u_email = ''user@example.com''\<rparr>,
               \<lparr>u_id = 2, u_email = ''other@example.com''\<rparr>],
      products =
        [\<lparr>p_id = 1, p_name = ''Wireless Mouse'',
          p_description = Some ''A high-quality wireless mouse with ergonomic design.'',
          p_price = Cents 2550, p_stock = 100,
          p_image_url = Some ''https://example.com/images/mouse.jpg''\<rparr>,
         \<lparr>p_id = 2, p_name = ''Mechanical Keyboard'',
          p_description = Some ''A durable mechanical keyboard with RGB backlighting.'',
          p_price = Cents 8999, p_stock = 50,
          p_image_url = Some ''https://example.com/images/keyboard.jpg''\<rparr>],
      orders = [], order_items = [],
      products_id_seq = 2, orders_id_seq = 0, order_items_id_seq = 0\<rparr>"

text \<open>
  A sample environment: the tokens \<^verbatim>\<open>t1\<close> and \<^verbatim>\<open>t2\<close> are the valid tokens of the two
  users, the store reads the texts \<^verbatim>\<open>1\<close> and \<^verbatim>\<open>2\<close> as integers and the text \<^verbatim>\<open>NaN\<close> as
  the numeric NaN, and it returns the rows of a query in the order of the cart lines.
  A second environment differs in the order of the rows of the checkout: the lines of the
  keyboard, product 2, come first.
\<close>

definition user1 :: jwt_payload where
  "user1 = \<lparr>userId = 1, email = ''user@example.com''\<rparr>"

definition user2 :: jwt_payload where
  "user2 = \<lparr>userId = 2, email = ''other@example.com''\<rparr>"

definition sample_env :: env where
  "sample_env =
     \<lparr>jwt_verify = (\<lambda>t. if t = ''t1'' then Some user1 else if t = ''t2'' then Some user2 else None),
      number_text = (\<lambda>d. []),
      int4_in = (\<lambda>t. if t = ''1'' then Some 1 else if t = ''2'' then Some 2 else None),
      numeric_in = (\<lambda>t. if t = ''NaN'' then Some NaN else None),
      checkout_rank = (\<lambda>s r. 0),
      cart_rank = (\<lambda>s r. 0)\<rparr>"

definition keyboards_first_env :: env where
  "keyboards_first_env =
     sample_env\<lparr>checkout_rank := (\<lambda>s r. if oi_product_id (fst r) = 2 then 0 else 1)\<rparr>"

text \<open>
  Failures of the store: none; the stock update of the second cart item; the commit.
\<close>

definition no_failure :: "stmt \<Rightarrow> bool" where
  "no_failure st = False"

definition second_decrement_fails :: "stmt \<Rightarrow> bool" where
  "second_decrement_fails st = (st = UpdateStock 1)"

definition commit_fails :: "stmt \<Rightarrow> bool" where
  "commit_fails st = (st = Commit)"

definition json_body :: "(string \<times> jsv) list \<Rightarrow> string \<Rightarrow> jsv" where
  "json_body kvs k = (case map_of kvs k of None \<Rightarrow> JUndefined | Some v \<Rightarrow> v)"

text \<open>A request with the header \<^verbatim>\<open>Authorization: Bearer <tok>\<close>.\<close>

definition bearer_request :: "string \<Rightarrow> string \<Rightarrow> (string \<times> jsv) list \<Rightarrow> request" where
  "bearer_request tok i kvs =
     \<lparr>authorization = Some (''Bearer '' @ tok), param_id = i, req_body = json_body kvs\<rparr>"

definition anonymous_request :: request where
  "anonymous_request = \<lparr>authorization = None, param_id = [], req_body = json_body []\<rparr>"

text \<open>Requests of the examples; \<^verbatim>\<open>t1\<close> checks out.\<close>

definition checkout_request :: request where
  "checkout_request = bearer_request ''t1'' [] []"

definition two_mice_request :: request where
  "two_mice_request =
     bearer_request ''t2'' [] [(''product_id'', JNum 1), (''quantity'', JNum 2)]"

definition sixty_keyboards_request :: request where
  "sixty_keyboards_request =
     bearer_request ''t2'' [] [(''product_id'', JNum 2), (''quantity'', JNum 60)]"

definition one_mouse_request :: request where
  "one_mouse_request =
     bearer_request ''t1'' [] [(''product_id'', JNum 1), (''quantity'', JNum 1)]"

definition minus_one_mouse_request :: request where
  "minus_one_mouse_request =
     bearer_request ''t1'' [] [(''product_id'', JNum 1), (''quantity'', JNum (- 1))]"

definition sixty_mice_request :: request where
  "sixty_mice_request =
     bearer_request ''t1'' [] [(''product_id'', JNum 1), (''quantity'', JNum 60)]"

definition forty_mice_request :: request where
  "forty_mice_request =
     bearer_request ''t1'' [] [(''product_id'', JNum 1), (''quantity'', JNum 40)]"

definition one_keyboard_request :: request where
  "one_keyboard_request =
     bearer_request ''t1'' [] [(''product_id'', JNum 2), (''quantity'', JNum 1)]"

definition two_keyboards_request :: request where
  "two_keyboards_request =
     bearer_request ''t1'' [] [(''product_id'', JNum 2), (''quantity'', JNum 2)]"

definition three_keyboards_request :: request where
  "three_keyboards_request =
     bearer_request ''t1'' [] [(''product_id'', JNum 2), (''quantity'', JNum 3)]"

definition least_mice_request :: request where
  "least_mice_request =
     bearer_request ''t1'' [] [(''product_id'', JNum 1), (''quantity'', JNum (- 2147483648))]"

definition free_pen_request :: request where
  "free_pen_request =
     bearer_request ''t1'' []
       [(''name'', JStr ''Pen''), (''price'', JNum 0), (''stock'', JNum 5)]"

definition sold_out_pen_request :: request where
  "sold_out_pen_request =
     bearer_request ''t1'' []
       [(''name'', JStr ''Pen''), (''price'', JNum (3 / 2)), (''stock'', JNum 0)]"

definition reprice_mouse_request :: request where
  "reprice_mouse_request = bearer_request ''t2'' ''1'' [(''price'', JNum 30)]"

definition reprice_keyboard_request :: request where
  "reprice_keyboard_request = bearer_request ''t2'' ''2'' [(''price'', JNum 90)]"

definition nan_mouse_request :: request where
  "nan_mouse_request = bearer_request ''t2'' ''1'' [(''price'', JStr ''NaN'')]"

definition negative_stock_request :: request where
  "negative_stock_request = bearer_request ''t1'' ''2'' [(''stock'', JNum (- 5))]"

text \<open>
  Carts, built by the handlers from the seed data. Two mice put in the cart by the second
  user; then sixty keyboards, ten more than the stock.
\<close>

definition cart_two_mice :: db where
  "cart_two_mice = snd (api_add_to_cart sample_env two_mice_request seed_db)"

definition cart_short_keyboards :: db where
  "cart_short_keyboards =
     snd (api_add_to_cart sample_env sixty_keyboards_request cart_two_mice)"

text \<open>
  One mouse is put in the cart at 25.50, then the catalog price of the mouse is set to 30.
\<close>

definition repriced_cart :: db where
  "repriced_cart =
     snd (api_update_product sample_env reprice_mouse_request
            (snd (api_add_to_cart sample_env one_mouse_request seed_db)))"

text \<open>
  Sixty mice put in the cart twice, against a stock of one hundred; sixty mice and then
  forty; three keyboards at 89.99; and two mice, one keyboard and two keyboards, in three
  lines.
\<close>

definition cart_twice_sixty_mice :: db where
  "cart_twice_sixty_mice =
     snd (api_add_to_cart sample_env sixty_mice_request
            (snd (api_add_to_cart sample_env sixty_mice_request seed_db)))"

definition cart_all_mice :: db where
  "cart_all_mice =
     snd (api_add_to_cart sample_env forty_mice_request
            (snd (api_add_to_cart sample_env sixty_mice_request seed_db)))"

definition cart_three_keyboards :: db where
  "cart_three_keyboards = snd (api_add_to_cart sample_env three_keyboards_request seed_db)"

definition cart_three_lines :: db where
  "cart_three_lines =
     snd (api_add_to_cart sample_env two_keyboards_request
            (snd (api_add_to_cart sample_env one_keyboard_request cart_two_mice)))"

text \<open>
  The mouse at 30 and the keyboard at 90, and then two mice put in the cart by the second
  user and three keyboards by the first.
\<close>

definition cart_round_prices :: db where
  "cart_round_prices =
     snd (api_add_to_cart sample_env three_keyboards_request
            (snd (api_add_to_cart sample_env two_mice_request
                    (snd (api_update_product sample_env reprice_keyboard_request
                            (snd (api_update_product sample_env reprice_mouse_request
                                    seed_db)))))))"

text \<open>
  A line of \<open>-2147483648\<close> mice, whose stock update leaves the range of the stock, and
  then sixty keyboards. And one mouse in the cart when the price of the mouse is NaN.
\<close>

definition cart_overflow_then_short :: db where
  "cart_overflow_then_short =
     snd (api_add_to_cart sample_env sixty_keyboards_request
            (snd (api_add_to_cart sample_env least_mice_request seed_db)))"

definition cart_nan_mouse :: db where
  "cart_nan_mouse =
     snd (api_add_to_cart sample_env one_mouse_request
            (snd (api_update_product sample_env nan_mouse_request seed_db)))"

section \<open>The middleware: who reaches a handler\<close>

text \<open>
  The token of a header \<^verbatim>\<open>Bearer <token>\<close> is the token, and a header of one piece
  has none.
\<close>

lemma split_on_single: "c \<notin> set xs \<Longrightarrow> split_on c xs = [xs]"
  by (induction xs) auto

lemma bearer_token_of_header:
  "CHR '' '' \<notin> set tok \<Longrightarrow> bearer_token (Some (''Bearer '' @ tok)) = Some tok"
  by (simp add: bearer_token_def split_on_single)

lemma bearer_token_one_piece:
  "CHR '' '' \<notin> set h \<Longrightarrow> h \<noteq> [] \<Longrightarrow> bearer_token (Some h) = None"
  by (simp add: bearer_token_def split_on_single)

text \<open>
  C9. A protected route answers 401 without running its handler when the request carries
  no bearer token, answers 403 without running its handler when the token does not
  verify, and otherwise runs the handler with the identity of the token. In the first two
  cases the answer and the unchanged database do not depend on the handler.
\<close>

theorem verifyToken_outcomes:
  "(bearer_token (authorization req) = None \<longrightarrow>
      verifyToken E next req s = (reply 401 (Message ''Authorization token is missing.''), s))
   \<and> (\<forall>token. bearer_token (authorization req) = Some token \<and> jwt_verify E token = None \<longrightarrow>
         verifyToken E next req s = (reply 403 (Message ''Invalid token.''), s))
   \<and> (\<forall>token user. bearer_token (authorization req) = Some token
          \<and> jwt_verify E token = Some user \<longrightarrow>
         verifyToken E next req s = next user req s)"
  by (simp add: verifyToken_def)

theorem verifyToken_outcomes_witness:
  "bearer_token (authorization anonymous_request) = None
   \<and> verifyToken sample_env (checkout sample_env) anonymous_request seed_db =
       (reply 401 (Message ''Authorization token is missing.''), seed_db)
   \<and> bearer_token (authorization (bearer_request ''forged'' [] [])) = Some ''forged''
   \<and> jwt_verify sample_env ''forged'' = None
   \<and> verifyToken sample_env (checkout sample_env) (bearer_request ''forged'' [] []) seed_db =
       (reply 403 (Message ''Invalid token.''), seed_db)
   \<and> bearer_token (authorization (bearer_request ''t1'' [] [])) = Some ''t1''
   \<and> jwt_verify sample_env ''t1'' = Some user1
   \<and> verifyToken sample_env (checkout sample_env) (bearer_request ''t1'' [] []) seed_db =
       checkout sample_env user1 (bearer_request ''t1'' [] []) seed_db"
proof -
  have a: "bearer_token (authorization anonymous_request) = None"
    by (simp add: anonymous_request_def bearer_token_def)
  have b: "bearer_token (authorization (bearer_request ''forged'' [] [])) = Some ''forged''"
    by (simp add: bearer_request_def bearer_token_def)
  have c: "jwt_verify sample_env ''forged'' = None"
    by (simp add: sample_env_def)
  have d: "bearer_token (authorization (bearer_request ''t1'' [] [])) = Some ''t1''"
    by (simp add: bearer_request_def bearer_token_def)
  have e: "jwt_verify sample_env ''t1'' = Some user1"
    by (simp add: sample_env_def)
  show ?thesis
    using a b c d e
      verifyToken_outcomes [of anonymous_request sample_env "checkout sample_env" seed_db]
      verifyToken_outcomes [of "bearer_request ''forged'' [] []" sample_env
        "checkout sample_env" seed_db]
      verifyToken_outcomes [of "bearer_request ''t1'' [] []" sample_env
        "checkout sample_env" seed_db]
    by blast
qed

section \<open>The loop and the transaction of the checkout\<close>

lemma status_reply [simp]: "status (reply c b) = c"
  by (simp add: reply_def)

lemma body_reply [simp]: "body (reply c b) = b"
  by (simp add: reply_def)

lemma status_no_response [simp]: "status no_response = 0"
  by (simp add: no_response_def)

lemma status_internal_error [simp]: "status internal_error = 500"
  by (simp add: internal_error_def)

lemma rollback_tables [simp]:
  "users (rollback s t) = users s" "products (rollback s t) = products s"
  "orders (rollback s t) = orders s" "order_items (rollback s t) = order_items s"
  by (simp_all add: rollback_def)

lemma rollback_begin [simp]: "rollback s (begin_txn s) = s"
  by (simp add: rollback_def begin_txn_def)

lemma rollback_same_seqs:
  "products_id_seq (work t) = products_id_seq s \<Longrightarrow> orders_id_seq (work t) = orders_id_seq s \<Longrightarrow>
     order_items_id_seq (work t) = order_items_id_seq s \<Longrightarrow> rollback s t = s"
  by (simp add: rollback_def)

lemma catch_block_status [simp]: "status (fst (catch_block F s t)) \<noteq> 200"
  by (simp add: catch_block_def)

lemma catch_block_db [simp]: "snd (catch_block F s t) = rollback s t"
  by (simp add: catch_block_def)

lemma update_stock_seqs:
  "update_stock fail q pid t = (r, t') \<Longrightarrow>
     users (work t') = users (work t) \<and> orders (work t') = orders (work t)
     \<and> order_items (work t') = order_items (work t)
     \<and> products_id_seq (work t') = products_id_seq (work t)
     \<and> orders_id_seq (work t') = orders_id_seq (work t)
     \<and> order_items_id_seq (work t') = order_items_id_seq (work t)"
  by (auto simp add: update_stock_def split: if_splits)

lemma update_stock_fulfilled:
  "update_stock fail (ci_quantity item) (ci_product_id item) t = (None, t') \<Longrightarrow>
     \<not> aborted t \<and> \<not> aborted t' \<and> \<not> fail
     \<and> products (work t') = decrement item (products (work t))"
  by (auto simp add: update_stock_def decrement_def split: if_splits)

lemma verify_loop_seqs:
  "verify_loop F items k tot ups t = (ex, ups', t') \<Longrightarrow>
     users (work t') = users (work t) \<and> orders (work t') = orders (work t)
     \<and> order_items (work t') = order_items (work t)
     \<and> products_id_seq (work t') = products_id_seq (work t)
     \<and> orders_id_seq (work t') = orders_id_seq (work t)
     \<and> order_items_id_seq (work t') = order_items_id_seq (work t)"
proof (induction items arbitrary: k tot ups t)
  case Nil
  then show ?case by simp
next
  case (Cons item items)
  show ?case
  proof (cases "ci_stock item < ci_quantity item")
    case True
    with Cons.prems show ?thesis by simp
  next
    case False
    obtain u t1 where
      u: "update_stock (F (UpdateStock k)) (ci_quantity item) (ci_product_id item) t = (u, t1)"
      by (cases "update_stock (F (UpdateStock k)) (ci_quantity item) (ci_product_id item) t")
    from Cons.prems False u
    have "verify_loop F items (Suc k)
            (js_add tot (js_mul (parseFloat (ci_price item)) (Fin (of_int (ci_quantity item)))))
            (ups @ [u]) t1 = (ex, ups', t')"
      by simp
    from Cons.IH [OF this] update_stock_seqs [OF u] show ?thesis by simp
  qed
qed

lemma verify_loop_work:
  "verify_loop F items k tot ups t = (ex, ups', t') \<Longrightarrow>
     work t' = (work t)\<lparr>products := products (work t')\<rparr>"
  using verify_loop_seqs [of F items k tot ups t ex ups' t']
  by (cases "work t'", cases "work t") simp

lemma verify_loop_promises:
  "verify_loop F items k tot ups t = (ex, ups', t') \<Longrightarrow> set ups \<subseteq> set ups'"
proof (induction items arbitrary: k tot ups t)
  case Nil
  then show ?case by simp
next
  case (Cons item items)
  show ?case
  proof (cases "ci_stock item < ci_quantity item")
    case True
    with Cons.prems show ?thesis by simp
  next
    case False
    obtain u t1 where
      u: "update_stock (F (UpdateStock k)) (ci_quantity item) (ci_product_id item) t = (u, t1)"
      by (cases "update_stock (F (UpdateStock k)) (ci_quantity item) (ci_product_id item) t")
    from Cons.prems False u
    have "verify_loop F items (Suc k)
            (js_add tot (js_mul (parseFloat (ci_price item)) (Fin (of_int (ci_quantity item)))))
            (ups @ [u]) t1 = (ex, ups', t')"
      by simp
    from Cons.IH [OF this] show ?thesis by simp
  qed
qed

lemma verify_loop_verified:
  "verify_loop F items k tot ups t = (Verified tot', ups', t') \<Longrightarrow>
     tot' = js_total tot items \<and> (\<forall>item \<in> set items. ci_quantity item \<le> ci_stock item)"
proof (induction items arbitrary: k tot ups t)
  case Nil
  then show ?case by (simp add: js_total_def)
next
  case (Cons item items)
  show ?case
  proof (cases "ci_stock item < ci_quantity item")
    case True
    with Cons.prems show ?thesis by simp
  next
    case False
    obtain u t1 where
      u: "update_stock (F (UpdateStock k)) (ci_quantity item) (ci_product_id item) t = (u, t1)"
      by (cases "update_stock (F (UpdateStock k)) (ci_quantity item) (ci_product_id item) t")
    from Cons.prems False u
    have "verify_loop F items (Suc k)
            (js_add tot (js_mul (parseFloat (ci_price item)) (Fin (of_int (ci_quantity item)))))
            (ups @ [u]) t1 = (Verified tot', ups', t')"
      by simp
    from Cons.IH [OF this] False show ?thesis by (simp add: js_total_def)
  qed
qed

text \<open>
  When every promise of the loop is fulfilled, the transaction is live, no statement of
  the loop was failed from outside, and the stock of every item has been taken.
\<close>

lemma verify_loop_fulfilled:
  "verify_loop F items k tot ups t = (Verified tot', ups', t') \<Longrightarrow>
     \<forall>r \<in> set ups'. r = None \<Longrightarrow> \<not> aborted t \<Longrightarrow>
     \<not> aborted t' \<and> products (work t') = decrement_all items (products (work t))"
proof (induction items arbitrary: k tot ups t)
  case Nil
  then show ?case by (simp add: decrement_all_def)
next
  case (Cons item items)
  show ?case
  proof (cases "ci_stock item < ci_quantity item")
    case True
    with Cons.prems show ?thesis by simp
  next
    case False
    obtain u t1 where
      u: "update_stock (F (UpdateStock k)) (ci_quantity item) (ci_product_id item) t = (u, t1)"
      by (cases "update_stock (F (UpdateStock k)) (ci_quantity item) (ci_product_id item) t")
    from Cons.prems(1) False u
    have rec: "verify_loop F items (Suc k)
            (js_add tot (js_mul (parseFloat (ci_price item)) (Fin (of_int (ci_quantity item)))))
            (ups @ [u]) t1 = (Verified tot', ups', t')"
      by simp
    from verify_loop_promises [OF rec] have "u \<in> set ups'" by auto
    with Cons.prems(2) have "u = None" by simp
    with u have "\<not> aborted t1"
      and w: "products (work t1) = decrement item (products (work t))"
      using update_stock_fulfilled [of "F (UpdateStock k)" item t t1] by simp_all
    from Cons.IH [OF rec Cons.prems(2) this(1)] w show ?thesis
      by (simp add: decrement_all_def)
  qed
qed

section \<open>Outcomes of the checkout\<close>

lemma not_rejected: "\<not> rejected ps \<Longrightarrow> \<forall>r \<in> set ps. r = None"
  by (simp add: rejected_def)

lemma rollback_ex: "\<exists>t. s = rollback s t"
  by (rule exI [of _ "begin_txn s"]) simp

text \<open>
  Every answer comes either with status 200 or with a transaction that ended without a
  commit.
\<close>

lemma checkout_under_ends:
  "status (fst (checkout_under F E user req s)) = 200
   \<or> (\<exists>t. snd (checkout_under F E user req s) = rollback s t)"
proof (cases "F SelectCart")
  case True
  then show ?thesis by (auto simp add: checkout_under_def Let_def rollback_ex)
next
  case sel: False
  show ?thesis
  proof (cases "select_cart_items E s = []")
    case True
    with sel show ?thesis
      by (cases "F Rollback") (auto simp add: checkout_under_def Let_def begin_txn_def rollback_ex)
  next
    case ne: False
    obtain ex ups t1 where
      loop: "verify_loop F (select_cart_items E s) 0 (Fin 0) [] (begin_txn s) = (ex, ups, t1)"
      by (cases "verify_loop F (select_cart_items E s) 0 (Fin 0) [] (begin_txn s)")
    show ?thesis
    proof (cases "rejected ups")
      case True
      with sel ne loop show ?thesis
        by (auto simp add: checkout_under_def Let_def begin_txn_def rollback_ex)
    next
      case clean: False
      show ?thesis
      proof (cases ex)
        case (InsufficientStock pid)
        with sel ne loop clean show ?thesis
          by (cases "F Rollback") (auto simp add: checkout_under_def Let_def begin_txn_def rollback_ex)
      next
        case (Verified total)
        obtain io t2 where
          ins: "insert_order (F InsertOrder) (userId user) total ''completed'' t1 = (io, t2)"
          by (cases "insert_order (F InsertOrder) (userId user) total ''completed'' t1")
        show ?thesis
        proof (cases io)
          case (Inl e)
          with sel ne loop clean Verified ins show ?thesis
            by (auto simp add: checkout_under_def Let_def begin_txn_def rollback_ex)
        next
          case (Inr orderId)
          obtain b t3 where bnd: "bind_order_items (F BindItems) orderId t2 = (b, t3)"
            by (cases "bind_order_items (F BindItems) orderId t2")
          show ?thesis
          proof (cases b)
            case (Some e)
            with sel ne loop clean Verified ins Inr bnd show ?thesis
              by (auto simp add: checkout_under_def Let_def begin_txn_def rollback_ex)
          next
            case None
            with sel ne loop clean Verified ins Inr bnd show ?thesis
              by (cases "F Commit") (auto simp add: checkout_under_def Let_def begin_txn_def rollback_ex)
          qed
        qed
      qed
    qed
  qed
qed

lemma checkout_under_failure:
  "status (fst (checkout_under F E user req s)) \<noteq> 200 \<Longrightarrow>
     \<exists>t. snd (checkout_under F E user req s) = rollback s t"
  using checkout_under_ends [of F E user req s] by blast

text \<open>
  An answer of 200 comes with the order row, the stock decrements of all items and the
  binding of all lines in the database; the stored total is the answered total as the
  store reads and rounds it.
\<close>

lemma checkout_under_success:
  assumes ok: "status (fst (checkout_under F E user req s)) = 200"
  shows "\<exists>c. checkout_under F E user req s =
           (reply 200 (CheckoutBody ''Checkout successful!'' (orders_id_seq s + 1)
                         (js_total (Fin 0) (select_cart_items E s))),
            s\<lparr>products := decrement_all (select_cart_items E s) (products s),
              orders := orders s @
                [\<lparr>o_id = orders_id_seq s + 1, o_user_id = userId user, o_total_amount = c,
                  o_status = ''completed''\<rparr>],
              order_items := bind_lines (orders_id_seq s + 1) (order_items s),
              orders_id_seq := orders_id_seq s + 1\<rparr>)
         \<and> numeric_10_2 (number_param (js_total (Fin 0) (select_cart_items E s))) = Inr c
         \<and> select_cart_items E s \<noteq> []
         \<and> (\<forall>item \<in> set (select_cart_items E s). ci_quantity item \<le> ci_stock item)
         \<and> userId user \<in> set (map u_id (users s))"
proof -
  define items where "items = select_cart_items E s"
  obtain ex ups t1 where loop: "verify_loop F items 0 (Fin 0) [] (begin_txn s) = (ex, ups, t1)"
    by (cases "verify_loop F items 0 (Fin 0) [] (begin_txn s)")
  from ok have sel: "\<not> F SelectCart"
    by (cases "F SelectCart") (simp_all add: checkout_under_def Let_def)
  from ok sel have ne: "items \<noteq> []"
    by (cases "items = []"; cases "F Rollback")
      (simp_all add: checkout_under_def Let_def items_def begin_txn_def)
  from ok sel ne loop have clean: "\<not> rejected ups"
    by (cases "rejected ups")
      (simp_all add: checkout_under_def Let_def items_def begin_txn_def)
  from ok sel ne loop clean obtain total where ex: "ex = Verified total"
    by (cases ex; cases "F Rollback")
      (simp_all add: checkout_under_def Let_def items_def begin_txn_def)
  note loop' = loop [unfolded ex]
  from verify_loop_verified [OF loop']
  have total: "total = js_total (Fin 0) items"
    and le: "\<forall>item \<in> set items. ci_quantity item \<le> ci_stock item"
    by simp_all
  from verify_loop_fulfilled [OF loop' not_rejected [OF clean]]
  have live1: "\<not> aborted t1"
    and prods: "products (work t1) = decrement_all items (products s)"
    by (simp_all add: begin_txn_def)
  from verify_loop_work [OF loop'] prods
  have w1: "work t1 = s\<lparr>products := decrement_all items (products s)\<rparr>"
    by (simp add: begin_txn_def)
  obtain io t2 where
    ins: "insert_order (F InsertOrder) (userId user) total ''completed'' t1 = (io, t2)"
    by (cases "insert_order (F InsertOrder) (userId user) total ''completed'' t1")
  from ok sel ne loop ex clean ins obtain orderId where io: "io = Inr orderId"
    by (cases io)
      (simp_all add: checkout_under_def Let_def items_def begin_txn_def)
  from ins io live1 w1 obtain c where
    c: "numeric_10_2 (number_param total) = Inr c"
    and mem: "userId user \<in> set (map u_id (users s))"
    and oid: "orderId = orders_id_seq s + 1"
    and t2: "t2 = \<lparr>work = s\<lparr>products := decrement_all items (products s),
                             orders_id_seq := orders_id_seq s + 1,
                             orders := orders s @
                               [\<lparr>o_id = orders_id_seq s + 1, o_user_id = userId user,
                                 o_total_amount = c, o_status = ''completed''\<rparr>]\<rparr>,
                 aborted = False\<rparr>"
    by (auto simp add: insert_order_def Let_def split: sum.splits if_splits)
  obtain b t3 where bnd: "bind_order_items (F BindItems) orderId t2 = (b, t3)"
    by (cases "bind_order_items (F BindItems) orderId t2")
  from ok sel ne loop ex clean ins io bnd have b: "b = None"
    by (cases b) (simp_all add: checkout_under_def Let_def items_def begin_txn_def)
  from ok sel ne loop ex clean ins io bnd b have com: "\<not> F Commit"
    by (cases "F Commit") (simp_all add: checkout_under_def Let_def items_def begin_txn_def)
  from bnd b t2 have t3: "t3 = t2\<lparr>work := (work t2)\<lparr>order_items :=
        bind_lines orderId (order_items (work t2))\<rparr>\<rparr>"
    by (auto simp add: bind_order_items_def bind_lines_def split: if_splits)
  have "checkout_under F E user req s =
          (reply 200 (CheckoutBody ''Checkout successful!'' orderId total), commit s t3)"
    using sel ne loop ex clean ins io bnd b com
    by (simp add: checkout_under_def Let_def items_def [symmetric] begin_txn_def)
  with t3 t2 oid total c ne le mem show ?thesis
    unfolding items_def by (simp add: commit_def)
qed

text \<open>
  C6. A checkout that finds no cart line without an order answers 400 with the message
  of the empty cart, inserts no order and leaves the whole database, sequences included,
  as it was.
\<close>

theorem checkout_empty_cart:
  "filter (\<lambda>oi. oi_order_id oi = None) (order_items s) = [] \<Longrightarrow>
     checkout E user req s = (reply 400 (Message ''Your cart is empty.''), s)"
proof -
  assume "filter (\<lambda>oi. oi_order_id oi = None) (order_items s) = []"
  then have "select_cart_items E s = []"
    by (simp add: select_cart_items_def join_rows_def)
  then show ?thesis
    by (simp add: checkout_def checkout_under_def Let_def begin_txn_def rollback_def)
qed

theorem checkout_empty_cart_witness:
  "filter (\<lambda>oi. oi_order_id oi = None) (order_items seed_db) = []
   \<and> checkout sample_env user1 checkout_request seed_db =
       (reply 400 (Message ''Your cart is empty.''), seed_db)"
proof -
  have h: "filter (\<lambda>oi. oi_order_id oi = None) (order_items seed_db) = []"
    by (simp add: seed_db_def)
  from checkout_empty_cart [OF h] h show ?thesis by blast
qed

text \<open>
  C3. Checkout is all or nothing, whichever statements the store fails. Either it answers
  200 and the new order row, every stock decrement and the binding of every cart line
  are in the database together, the stored total being the answered total as the store
  reads and rounds it; or there is another answer or none (the empty cart, insufficient
  stock, an error of a statement inside the transaction, the end of the process on a
  failed stock update or a failed rollback) and the four tables are exactly as before the
  call.
\<close>

theorem checkout_all_or_nothing:
  "(\<exists>c. checkout_under F E user req s =
           (reply 200 (CheckoutBody ''Checkout successful!'' (orders_id_seq s + 1)
                         (js_total (Fin 0) (select_cart_items E s))),
            s\<lparr>products := decrement_all (select_cart_items E s) (products s),
              orders := orders s @
                [\<lparr>o_id = orders_id_seq s + 1, o_user_id = userId user, o_total_amount = c,
                  o_status = ''completed''\<rparr>],
              order_items := bind_lines (orders_id_seq s + 1) (order_items s),
              orders_id_seq := orders_id_seq s + 1\<rparr>)
        \<and> numeric_10_2 (number_param (js_total (Fin 0) (select_cart_items E s))) = Inr c)
   \<or> (status (fst (checkout_under F E user req s)) \<noteq> 200
        \<and> orders (snd (checkout_under F E user req s)) = orders s
        \<and> products (snd (checkout_under F E user req s)) = products s
        \<and> order_items (snd (checkout_under F E user req s)) = order_items s
        \<and> users (snd (checkout_under F E user req s)) = users s)"
proof (cases "status (fst (checkout_under F E user req s)) = 200")
  case True
  from checkout_under_success [OF True] show ?thesis by blast
next
  case False
  from checkout_under_failure [OF False] obtain t where
    "snd (checkout_under F E user req s) = rollback s t"
    by blast
  with False show ?thesis by simp
qed

theorem checkout_all_or_nothing_witness:
  "fst (checkout_under second_decrement_fails sample_env user1 checkout_request
          cart_round_prices) = no_response
   \<and> products (snd (checkout_under second_decrement_fails sample_env user1 checkout_request
                      cart_round_prices)) = products cart_round_prices
   \<and> orders (snd (checkout_under second_decrement_fails sample_env user1 checkout_request
                    cart_round_prices)) = orders cart_round_prices
   \<and> order_items (snd (checkout_under second_decrement_fails sample_env user1
                         checkout_request cart_round_prices)) = order_items cart_round_prices
   \<and> fst (checkout_under commit_fails sample_env user1 checkout_request cart_round_prices) =
       internal_error
   \<and> products (snd (checkout_under commit_fails sample_env user1 checkout_request
                      cart_round_prices)) = products cart_round_prices
   \<and> orders (snd (checkout_under commit_fails sample_env user1 checkout_request
                    cart_round_prices)) = orders cart_round_prices
   \<and> order_items (snd (checkout_under commit_fails sample_env user1 checkout_request
                         cart_round_prices)) = order_items cart_round_prices
   \<and> fst (checkout_under no_failure sample_env user1 checkout_request
            cart_overflow_then_short) = no_response
   \<and> products (snd (checkout_under no_failure sample_env user1 checkout_request
                      cart_overflow_then_short)) = products cart_overflow_then_short
   \<and> fst (checkout_under no_failure sample_env user1 checkout_request cart_round_prices) =
       reply 200 (CheckoutBody ''Checkout successful!'' 1 (Fin 330))
   \<and> map p_stock (products (snd (checkout_under no_failure sample_env user1 checkout_request
                                   cart_round_prices))) = [98, 47]
   \<and> orders (snd (checkout_under no_failure sample_env user1 checkout_request
                    cart_round_prices)) =
       [\<lparr>o_id = 1, o_user_id = 1, o_total_amount = Cents 33000, o_status = ''completed''\<rparr>]
   \<and> map oi_order_id (order_items (snd (checkout_under no_failure sample_env user1
                                          checkout_request cart_round_prices))) =
       [Some 1, Some 1]"
proof -
  have a: "fst (checkout_under second_decrement_fails sample_env user1 checkout_request
          cart_round_prices) = no_response"
    by code_simp
  have b: "fst (checkout_under commit_fails sample_env user1 checkout_request
          cart_round_prices) = internal_error"
    by code_simp
  have c: "fst (checkout_under no_failure sample_env user1 checkout_request
            cart_overflow_then_short) = no_response"
    by code_simp
  have d: "fst (checkout_under no_failure sample_env user1 checkout_request cart_round_prices) =
       reply 200 (CheckoutBody ''Checkout successful!'' 1 (Fin 330))"
    by code_simp
  have e: "map p_stock (decrement_all (select_cart_items sample_env cart_round_prices)
             (products cart_round_prices)) = [98, 47]"
    by code_simp
  have f: "map oi_order_id (bind_lines (orders_id_seq cart_round_prices + 1)
             (order_items cart_round_prices)) = [Some 1, Some 1]"
    by code_simp
  have g: "numeric_10_2 (number_param (js_total (Fin 0)
             (select_cart_items sample_env cart_round_prices))) = Inr (Cents 33000)"
    by code_simp
  have h: "orders cart_round_prices = [] \<and> orders_id_seq cart_round_prices = 0
           \<and> userId user1 = 1"
    by code_simp
  from a have sa: "status (fst (checkout_under second_decrement_fails sample_env user1
      checkout_request cart_round_prices)) \<noteq> 200"
    by simp
  from b have sb: "status (fst (checkout_under commit_fails sample_env user1
      checkout_request cart_round_prices)) \<noteq> 200"
    by simp
  from c have sc: "status (fst (checkout_under no_failure sample_env user1
      checkout_request cart_overflow_then_short)) \<noteq> 200"
    by simp
  from d have sd: "status (fst (checkout_under no_failure sample_env user1
      checkout_request cart_round_prices)) = 200"
    by simp
  from checkout_all_or_nothing [of second_decrement_fails sample_env user1 checkout_request
      cart_round_prices] sa
  have a': "products (snd (checkout_under second_decrement_fails sample_env user1
                checkout_request cart_round_prices)) = products cart_round_prices
     \<and> orders (snd (checkout_under second_decrement_fails sample_env user1 checkout_request
                    cart_round_prices)) = orders cart_round_prices
     \<and> order_items (snd (checkout_under second_decrement_fails sample_env user1
                         checkout_request cart_round_prices)) = order_items cart_round_prices"
    by auto
  from checkout_all_or_nothing [of commit_fails sample_env user1 checkout_request
      cart_round_prices] sb
  have b': "products (snd (checkout_under commit_fails sample_env user1
                checkout_request cart_round_prices)) = products cart_round_prices
     \<and> orders (snd (checkout_under commit_fails sample_env user1 checkout_request
                    cart_round_prices)) = orders cart_round_prices
     \<and> order_items (snd (checkout_under commit_fails sample_env user1
                         checkout_request cart_round_prices)) = order_items cart_round_prices"
    by auto
  from checkout_all_or_nothing [of no_failure sample_env user1 checkout_request
      cart_overflow_then_short] sc
  have c': "products (snd (checkout_under no_failure sample_env user1 checkout_request
                      cart_overflow_then_short)) = products cart_overflow_then_short"
    by auto
  from checkout_all_or_nothing [of no_failure sample_env user1 checkout_request
      cart_round_prices] sd g
  have d': "snd (checkout_under no_failure sample_env user1 checkout_request cart_round_prices) =
      cart_round_prices\<lparr>products := decrement_all (select_cart_items sample_env cart_round_prices)
                (products cart_round_prices),
              orders := orders cart_round_prices @
                [\<lparr>o_id = orders_id_seq cart_round_prices + 1, o_user_id = userId user1,
                  o_total_amount = Cents 33000, o_status = ''completed''\<rparr>],
              order_items := bind_lines (orders_id_seq cart_round_prices + 1)
                (order_items cart_round_prices),
              orders_id_seq := orders_id_seq cart_round_prices + 1\<rparr>"
    by auto
  from a a' b b' c c' d d' e f h show ?thesis by simp
qed

section \<open>The arithmetic of the total\<close>

lemma ilog2_nonneg: "0 \<le> ilog2 n"
  by (induction n rule: ilog2.induct) (subst ilog2.simps, simp)

lemma ilog2_le: "n < 2 ^ Suc k \<Longrightarrow> ilog2 n \<le> int k"
proof (induction k arbitrary: n)
  case 0
  then show ?case by (subst ilog2.simps) simp
next
  case (Suc k)
  show ?case
  proof (cases "n < 2")
    case True
    then show ?thesis by (subst ilog2.simps) simp
  next
    case False
    from Suc.prems have "n div 2 < 2 ^ Suc k" by simp
    from Suc.IH [OF this] False show ?thesis
      by (subst ilog2.simps) simp
  qed
qed

lemma round_half_even_of_int: "round_half_even (of_int z) = z"
  by (simp add: round_half_even_def)

lemma pow2_nonpos: "e \<le> 0 \<Longrightarrow> pow2 e = 1 / 2 ^ nat (- e)"
  by (cases "e = 0") (simp_all add: pow2_def)

text \<open>An integer below \<open>2^53\<close> in absolute value is a double.\<close>

lemma round_double_of_int:
  assumes "\<bar>n\<bar> < 2 ^ 53"
  shows "round_double (of_int n) = of_int n"
proof (cases "n = 0")
  case True
  then show ?thesis by (simp add: round_double_def)
next
  case False
  then have "1 \<le> \<bar>n\<bar>" by simp
  then have "(of_int 1 :: rat) \<le> of_int \<bar>n\<bar>" by (simp only: of_int_le_iff)
  then have one: "(1::rat) \<le> \<bar>of_int n\<bar>" by simp
  have fl: "floor_log2 \<bar>of_int n\<bar> = ilog2 \<bar>n\<bar>"
    using one by (simp add: floor_log2_def flip: of_int_abs)
  from assms have "\<bar>n\<bar> < 2 ^ Suc 52" by simp
  from ilog2_le [OF this] have e: "ilog2 \<bar>n\<bar> - 52 \<le> 0" by simp
  define j where "j = nat (- (ilog2 \<bar>n\<bar> - 52))"
  have p: "pow2 (ilog2 \<bar>n\<bar> - 52) = 1 / 2 ^ j"
    unfolding j_def by (rule pow2_nonpos [OF e])
  have "of_int n / pow2 (ilog2 \<bar>n\<bar> - 52) = (of_int (n * 2 ^ j) :: rat)"
    by (simp add: p)
  then have "round_half_even (of_int n / pow2 (ilog2 \<bar>n\<bar> - 52)) = n * 2 ^ j"
    by (simp only: round_half_even_of_int)
  with False show ?thesis
    by (simp add: round_double_def fl Let_def p)
qed

lemma parseFloat_whole:
  assumes "whole_price pr"
  shows "parseFloat pr = Fin (of_int (units pr))"
proof (cases pr)
  case (Cents c)
  with assms have d: "100 dvd c" and b: "\<bar>c\<bar> < 10000000000" by simp_all
  from d obtain k where k: "c = 100 * k" by (auto simp add: dvd_def)
  with b have "\<bar>k\<bar> < 2 ^ 53" by simp
  from round_double_of_int [OF this] k Cents show ?thesis by simp
next
  case NumericNaN
  with assms show ?thesis by simp
qed

lemma js_total_Nil: "js_total t [] = t"
  by (simp add: js_total_def)

lemma js_total_Cons:
  "js_total t (item # items) =
     js_total (js_add t (js_mul (parseFloat (ci_price item)) (Fin (of_int (ci_quantity item)))))
       items"
  by (simp add: js_total_def)

text \<open>
  With whole prices and amounts that stay below \<open>2^53\<close>, no step of the loop rounds.
\<close>

lemma js_total_exact:
  "\<forall>item \<in> set items. whole_price (ci_price item) \<Longrightarrow>
     \<bar>a\<bar> + (\<Sum>item\<leftarrow>items. \<bar>ci_quantity item * units (ci_price item)\<bar>) < 2 ^ 53 \<Longrightarrow>
     js_total (Fin (of_int a)) items =
       Fin (of_int (a + (\<Sum>item\<leftarrow>items. ci_quantity item * units (ci_price item))))"
proof (induction items arbitrary: a)
  case Nil
  then show ?case by (simp add: js_total_def)
next
  case (Cons item items)
  let ?k = "units (ci_price item)"
  let ?q = "ci_quantity item"
  let ?rest = "\<Sum>item\<leftarrow>items. \<bar>ci_quantity item * units (ci_price item)\<bar>"
  have rest: "0 \<le> ?rest" by (rule sum_list_nonneg) auto
  from Cons.prems(2) have bound: "\<bar>a\<bar> + \<bar>?q * ?k\<bar> + ?rest < 2 ^ 53" by simp
  from Cons.prems(1) have pf: "parseFloat (ci_price item) = Fin (of_int ?k)"
    by (simp add: parseFloat_whole)
  from bound rest have "\<bar>?k * ?q\<bar> < 2 ^ 53" by (simp add: mult.commute)
  from round_double_of_int [OF this]
  have mul: "js_mul (parseFloat (ci_price item)) (Fin (of_int ?q)) = Fin (of_int (?k * ?q))"
    by (simp add: pf)
  from bound rest have "\<bar>a + ?k * ?q\<bar> < 2 ^ 53" by (simp add: mult.commute)
  from round_double_of_int [OF this]
  have add: "js_add (Fin (of_int a)) (Fin (of_int (?k * ?q))) = Fin (of_int (a + ?k * ?q))"
    by simp
  from bound have "\<bar>a + ?k * ?q\<bar> + ?rest < 2 ^ 53" by (simp add: mult.commute)
  with Cons.prems(1) have ih: "js_total (Fin (of_int (a + ?k * ?q))) items =
       Fin (of_int (a + ?k * ?q + (\<Sum>item\<leftarrow>items. ci_quantity item * units (ci_price item))))"
    by (intro Cons.IH) simp_all
  have "js_total (Fin (of_int a)) (item # items) =
          js_total (js_add (Fin (of_int a))
            (js_mul (parseFloat (ci_price item)) (Fin (of_int ?q)))) items"
    by (rule js_total_Cons)
  also have "\<dots> = js_total (Fin (of_int (a + ?k * ?q))) items"
    by (simp only: mul add)
  also note ih
  also have "a + ?k * ?q + (\<Sum>item\<leftarrow>items. ci_quantity item * units (ci_price item)) =
      a + (\<Sum>item\<leftarrow>item # items. ci_quantity item * units (ci_price item))"
    by (simp add: mult.commute)
  finally show ?case .
qed

lemma js_total_exact_0:
  assumes "\<forall>item \<in> set items. whole_price (ci_price item)"
    and "(\<Sum>item\<leftarrow>items. \<bar>ci_quantity item * units (ci_price item)\<bar>) < 2 ^ 53"
  shows "js_total (Fin 0) items =
           Fin (of_int (\<Sum>item\<leftarrow>items. ci_quantity item * units (ci_price item)))"
proof -
  from assms have "js_total (Fin (of_int 0)) items =
       Fin (of_int (0 + (\<Sum>item\<leftarrow>items. ci_quantity item * units (ci_price item))))"
    by (intro js_total_exact) simp_all
  then show ?thesis by simp
qed

lemma exact_total_whole:
  "\<forall>item \<in> set items. whole_price (ci_price item) \<Longrightarrow>
     exact_total items = Fin (of_int (\<Sum>item\<leftarrow>items. ci_quantity item * units (ci_price item)))"
proof (induction items)
  case Nil
  then show ?case by simp
next
  case (Cons item items)
  from Cons.prems have w: "whole_price (ci_price item)" by simp
  then obtain c where c: "ci_price item = Cents c" and d: "100 dvd c"
    by (cases "ci_price item") simp_all
  from d obtain k where k: "c = 100 * k" by (auto simp add: dvd_def)
  from Cons have "exact_total items =
      Fin (of_int (\<Sum>item\<leftarrow>items. ci_quantity item * units (ci_price item)))" by simp
  with c k show ?case by simp
qed

text \<open>A NaN stays: once the total is NaN, or an item has the price NaN, the total is NaN.\<close>

lemma js_add_NaN [simp]: "js_add t NaN = NaN"
  by (cases t) simp_all

lemma js_total_NaN: "js_total NaN items = NaN"
  by (induction items) (simp_all add: js_total_Nil js_total_Cons)

lemma js_total_NaN_price:
  "\<exists>item \<in> set items. ci_price item = NumericNaN \<Longrightarrow> js_total t items = NaN"
proof (induction items arbitrary: t)
  case Nil
  then show ?case by simp
next
  case (Cons item items)
  show ?case
  proof (cases "ci_price item = NumericNaN")
    case True
    then show ?thesis by (simp add: js_total_Cons js_total_NaN)
  next
    case False
    with Cons.prems have "\<exists>item \<in> set items. ci_price item = NumericNaN" by simp
    from Cons.IH [OF this] show ?thesis by (simp add: js_total_Cons)
  qed
qed

text \<open>
  The rows of a query are the rows of the join in some order: a sum over them does not
  depend on the rank.
\<close>

lemma sum_list_sort_key:
  fixes g :: "'a \<Rightarrow> int"
  shows "(\<Sum>x\<leftarrow>sort_key f xs. g x) = (\<Sum>x\<leftarrow>xs. g x)"
proof -
  have "mset (map g (sort_key f xs)) = mset (map g xs)" by simp
  then show ?thesis by (metis sum_mset_sum_list)
qed

lemma ci_of_row [simp]:
  "ci_id (cart_item_of r) = oi_id (fst r)"
  "ci_product_id (cart_item_of r) = oi_product_id (fst r)"
  "ci_quantity (cart_item_of r) = oi_quantity (fst r)"
  "ci_price (cart_item_of r) = p_price (snd r)"
  "ci_stock (cart_item_of r) = p_stock (snd r)"
  by (cases r; simp add: cart_item_of_def)+

lemma sum_list_select_cart_items:
  fixes g :: "cart_item \<Rightarrow> int"
  shows "(\<Sum>item\<leftarrow>select_cart_items E s. g item) = (\<Sum>r\<leftarrow>join_rows s. g (cart_item_of r))"
  by (simp add: select_cart_items_def comp_def sum_list_sort_key)

lemma set_select_cart_items: "set (select_cart_items E s) = cart_item_of ` set (join_rows s)"
  by (simp add: select_cart_items_def)

lemma mset_select_cart_items:
  "mset (select_cart_items E s) = mset (map cart_item_of (join_rows s))"
  by (simp add: select_cart_items_def)

lemma in_join_rows:
  "oi \<in> set (order_items s) \<Longrightarrow> p \<in> set (products s) \<Longrightarrow> oi_order_id oi = None \<Longrightarrow>
     oi_product_id oi = p_id p \<Longrightarrow> (oi, p) \<in> set (join_rows s)"
  by (force simp add: join_rows_def)

lemma join_rowsD:
  "r \<in> set (join_rows s) \<Longrightarrow>
     fst r \<in> set (order_items s) \<and> snd r \<in> set (products s) \<and> oi_order_id (fst r) = None
     \<and> oi_product_id (fst r) = p_id (snd r)"
  by (auto simp add: join_rows_def)

lemma in_select_cart_items:
  "oi \<in> set (order_items s) \<Longrightarrow> p \<in> set (products s) \<Longrightarrow> oi_order_id oi = None \<Longrightarrow>
     oi_product_id oi = p_id p \<Longrightarrow>
     \<lparr>ci_id = oi_id oi, ci_product_id = oi_product_id oi, ci_quantity = oi_quantity oi,
      ci_price = p_price p, ci_stock = p_stock p\<rparr> \<in> set (select_cart_items E s)"
proof -
  assume "oi \<in> set (order_items s)" "p \<in> set (products s)" "oi_order_id oi = None"
    "oi_product_id oi = p_id p"
  then have "(oi, p) \<in> set (join_rows s)" by (rule in_join_rows)
  then have "cart_item_of (oi, p) \<in> set (select_cart_items E s)"
    by (simp add: set_select_cart_items)
  then show ?thesis by (simp add: cart_item_of_def)
qed

section \<open>The cart is shared by all users\<close>

lemma bind_lines_mem:
  "oi \<in> set ois \<Longrightarrow> oi_order_id oi = None \<Longrightarrow>
     oi\<lparr>oi_order_id := Some orderId\<rparr> \<in> set (bind_lines orderId ois)"
  by (force simp add: bind_lines_def)

lemma get_cart_rows:
  "oi \<in> set (order_items s) \<Longrightarrow> p \<in> set (products s) \<Longrightarrow> oi_order_id oi = None \<Longrightarrow>
     oi_product_id oi = p_id p \<Longrightarrow>
     \<lparr>cr_product_id = oi_product_id oi, cr_quantity = oi_quantity oi, cr_price = oi_price oi,
      cr_product_name = p_name p, cr_image_url = p_image_url p\<rparr>
       \<in> set (map cart_row_of (sort_key (cart_rank E s) (join_rows s)))"
proof -
  assume "oi \<in> set (order_items s)" "p \<in> set (products s)" "oi_order_id oi = None"
    "oi_product_id oi = p_id p"
  then have "(oi, p) \<in> set (join_rows s)" by (rule in_join_rows)
  then have "cart_row_of (oi, p) \<in> set (map cart_row_of (sort_key (cart_rank E s) (join_rows s)))"
    by simp
  then show ?thesis by (simp add: cart_row_of_def)
qed

text \<open>
  C7. The cart is one global set. The answer of \<^verbatim>\<open>GET /api/cart\<close> and the effect of
  \<^verbatim>\<open>POST /api/cart\<close> do not depend on the user; the answer lists the lines without an
  order (that have a product), each once, in the order of the store. A successful
  checkout by a user reads every such line, each once, totals all of them, stores that
  total in the one new order of that user and binds every line without an order to it,
  whoever added the line. With whole prices and amounts below \<open>2^53\<close> the answered total
  is the sum of quantity times price over all these lines.
\<close>

theorem cart_is_global:
  "get_cart E ua ra s = get_cart E ub rb s
   \<and> add_to_cart E ua req s = add_to_cart E ub req s
   \<and> (\<exists>rows. get_cart E ua ra s = (reply 200 (CartBody rows), s)
         \<and> mset rows = mset (map cart_row_of (join_rows s)))
   \<and> (\<forall>oi \<in> set (order_items s). \<forall>p \<in> set (products s).
         oi_order_id oi = None \<and> oi_product_id oi = p_id p \<longrightarrow>
         (\<exists>rows. get_cart E ua ra s = (reply 200 (CartBody rows), s)
            \<and> \<lparr>cr_product_id = oi_product_id oi, cr_quantity = oi_quantity oi,
                cr_price = oi_price oi, cr_product_name = p_name p,
                cr_image_url = p_image_url p\<rparr> \<in> set rows))
   \<and> (status (fst (checkout E u req s)) = 200 \<longrightarrow>
         (\<exists>orderId c.
            body (fst (checkout E u req s)) =
              CheckoutBody ''Checkout successful!'' orderId
                (js_total (Fin 0) (select_cart_items E s))
            \<and> numeric_10_2 (number_param (js_total (Fin 0) (select_cart_items E s))) = Inr c
            \<and> orders (snd (checkout E u req s)) =
                orders s @ [\<lparr>o_id = orderId, o_user_id = userId u, o_total_amount = c,
                              o_status = ''completed''\<rparr>]
            \<and> order_items (snd (checkout E u req s)) = bind_lines orderId (order_items s)
            \<and> (\<forall>oi \<in> set (order_items s). oi_order_id oi = None \<longrightarrow>
                  oi\<lparr>oi_order_id := Some orderId\<rparr>
                    \<in> set (order_items (snd (checkout E u req s))))
            \<and> (\<forall>oi \<in> set (order_items s). \<forall>p \<in> set (products s).
                  oi_order_id oi = None \<and> oi_product_id oi = p_id p \<longrightarrow>
                  \<lparr>ci_id = oi_id oi, ci_product_id = oi_product_id oi,
                   ci_quantity = oi_quantity oi, ci_price = p_price p,
                   ci_stock = p_stock p\<rparr> \<in> set (select_cart_items E s))
            \<and> mset (select_cart_items E s) = mset (map cart_item_of (join_rows s))
            \<and> ((\<forall>r \<in> set (join_rows s). whole_price (p_price (snd r)))
                \<and> (\<Sum>r\<leftarrow>join_rows s. \<bar>oi_quantity (fst r) * units (p_price (snd r))\<bar>) < 2 ^ 53
                \<longrightarrow> js_total (Fin 0) (select_cart_items E s) =
                      Fin (of_int (\<Sum>r\<leftarrow>join_rows s.
                                     oi_quantity (fst r) * units (p_price (snd r)))))))"
proof (intro conjI)
  show "get_cart E ua ra s = get_cart E ub rb s"
    by (simp add: get_cart_def)
  show "add_to_cart E ua req s = add_to_cart E ub req s"
    by (simp add: add_to_cart_def)
  show "\<exists>rows. get_cart E ua ra s = (reply 200 (CartBody rows), s)
         \<and> mset rows = mset (map cart_row_of (join_rows s))"
    by (rule exI [of _ "map cart_row_of (sort_key (cart_rank E s) (join_rows s))"])
      (simp add: get_cart_def)
  show "\<forall>oi \<in> set (order_items s). \<forall>p \<in> set (products s).
         oi_order_id oi = None \<and> oi_product_id oi = p_id p \<longrightarrow>
         (\<exists>rows. get_cart E ua ra s = (reply 200 (CartBody rows), s)
            \<and> \<lparr>cr_product_id = oi_product_id oi, cr_quantity = oi_quantity oi,
                cr_price = oi_price oi, cr_product_name = p_name p,
                cr_image_url = p_image_url p\<rparr> \<in> set rows)"
  proof (intro ballI impI)
    fix oi p
    assume "oi \<in> set (order_items s)" "p \<in> set (products s)"
      "oi_order_id oi = None \<and> oi_product_id oi = p_id p"
    then have "\<lparr>cr_product_id = oi_product_id oi, cr_quantity = oi_quantity oi,
                cr_price = oi_price oi, cr_product_name = p_name p,
                cr_image_url = p_image_url p\<rparr>
                 \<in> set (map cart_row_of (sort_key (cart_rank E s) (join_rows s)))"
      by (intro get_cart_rows) simp_all
    then show "\<exists>rows. get_cart E ua ra s = (reply 200 (CartBody rows), s)
            \<and> \<lparr>cr_product_id = oi_product_id oi, cr_quantity = oi_quantity oi,
                cr_price = oi_price oi, cr_product_name = p_name p,
                cr_image_url = p_image_url p\<rparr> \<in> set rows"
      by (intro exI [of _ "map cart_row_of (sort_key (cart_rank E s) (join_rows s))"] conjI)
        (simp_all add: get_cart_def)
  qed
  show "status (fst (checkout E u req s)) = 200 \<longrightarrow>
         (\<exists>orderId c.
            body (fst (checkout E u req s)) =
              CheckoutBody ''Checkout successful!'' orderId
                (js_total (Fin 0) (select_cart_items E s))
            \<and> numeric_10_2 (number_param (js_total (Fin 0) (select_cart_items E s))) = Inr c
            \<and> orders (snd (checkout E u req s)) =
                orders s @ [\<lparr>o_id = orderId, o_user_id = userId u, o_total_amount = c,
                              o_status = ''completed''\<rparr>]
            \<and> order_items (snd (checkout E u req s)) = bind_lines orderId (order_items s)
            \<and> (\<forall>oi \<in> set (order_items s). oi_order_id oi = None \<longrightarrow>
                  oi\<lparr>oi_order_id := Some orderId\<rparr>
                    \<in> set (order_items (snd (checkout E u req s))))
            \<and> (\<forall>oi \<in> set (order_items s). \<forall>p \<in> set (products s).
                  oi_order_id oi = None \<and> oi_product_id oi = p_id p \<longrightarrow>
                  \<lparr>ci_id = oi_id oi, ci_product_id = oi_product_id oi,
                   ci_quantity = oi_quantity oi, ci_price = p_price p,
                   ci_stock = p_stock p\<rparr> \<in> set (select_cart_items E s))
            \<and> mset (select_cart_items E s) = mset (map cart_item_of (join_rows s))
            \<and> ((\<forall>r \<in> set (join_rows s). whole_price (p_price (snd r)))
                \<and> (\<Sum>r\<leftarrow>join_rows s. \<bar>oi_quantity (fst r) * units (p_price (snd r))\<bar>) < 2 ^ 53
                \<longrightarrow> js_total (Fin 0) (select_cart_items E s) =
                      Fin (of_int (\<Sum>r\<leftarrow>join_rows s.
                                     oi_quantity (fst r) * units (p_price (snd r))))))"
  proof
    assume "status (fst (checkout E u req s)) = 200"
    then have ok: "status (fst (checkout_under (\<lambda>st. False) E u req s)) = 200"
      by (simp add: checkout_def)
    from checkout_under_success [OF ok] obtain c where
      co: "checkout E u req s =
           (reply 200 (CheckoutBody ''Checkout successful!'' (orders_id_seq s + 1)
                         (js_total (Fin 0) (select_cart_items E s))),
            s\<lparr>products := decrement_all (select_cart_items E s) (products s),
              orders := orders s @
                [\<lparr>o_id = orders_id_seq s + 1, o_user_id = userId u, o_total_amount = c,
                  o_status = ''completed''\<rparr>],
              order_items := bind_lines (orders_id_seq s + 1) (order_items s),
              orders_id_seq := orders_id_seq s + 1\<rparr>)"
      and c: "numeric_10_2 (number_param (js_total (Fin 0) (select_cart_items E s))) = Inr c"
      unfolding checkout_def by blast
    have exact: "(\<forall>r \<in> set (join_rows s). whole_price (p_price (snd r)))
                \<and> (\<Sum>r\<leftarrow>join_rows s. \<bar>oi_quantity (fst r) * units (p_price (snd r))\<bar>) < 2 ^ 53
                \<longrightarrow> js_total (Fin 0) (select_cart_items E s) =
                      Fin (of_int (\<Sum>r\<leftarrow>join_rows s.
                                     oi_quantity (fst r) * units (p_price (snd r))))"
    proof
      assume h: "(\<forall>r \<in> set (join_rows s). whole_price (p_price (snd r)))
                \<and> (\<Sum>r\<leftarrow>join_rows s. \<bar>oi_quantity (fst r) * units (p_price (snd r))\<bar>) < 2 ^ 53"
      then have w: "\<forall>item \<in> set (select_cart_items E s). whole_price (ci_price item)"
        by (simp add: set_select_cart_items)
      from h have b: "(\<Sum>item\<leftarrow>select_cart_items E s.
                         \<bar>ci_quantity item * units (ci_price item)\<bar>) < 2 ^ 53"
        by (simp add: sum_list_select_cart_items)
      from js_total_exact_0 [OF w b]
      show "js_total (Fin 0) (select_cart_items E s) =
              Fin (of_int (\<Sum>r\<leftarrow>join_rows s. oi_quantity (fst r) * units (p_price (snd r))))"
        by (simp add: sum_list_select_cart_items)
    qed
    show "\<exists>orderId c.
            body (fst (checkout E u req s)) =
              CheckoutBody ''Checkout successful!'' orderId
                (js_total (Fin 0) (select_cart_items E s))
            \<and> numeric_10_2 (number_param (js_total (Fin 0) (select_cart_items E s))) = Inr c
            \<and> orders (snd (checkout E u req s)) =
                orders s @ [\<lparr>o_id = orderId, o_user_id = userId u, o_total_amount = c,
                              o_status = ''completed''\<rparr>]
            \<and> order_items (snd (checkout E u req s)) = bind_lines orderId (order_items s)
            \<and> (\<forall>oi \<in> set (order_items s). oi_order_id oi = None \<longrightarrow>
                  oi\<lparr>oi_order_id := Some orderId\<rparr>
                    \<in> set (order_items (snd (checkout E u req s))))
            \<and> (\<forall>oi \<in> set (order_items s). \<forall>p \<in> set (products s).
                  oi_order_id oi = None \<and> oi_product_id oi = p_id p \<longrightarrow>
                  \<lparr>ci_id = oi_id oi, ci_product_id = oi_product_id oi,
                   ci_quantity = oi_quantity oi, ci_price = p_price p,
                   ci_stock = p_stock p\<rparr> \<in> set (select_cart_items E s))
            \<and> mset (select_cart_items E s) = mset (map cart_item_of (join_rows s))
            \<and> ((\<forall>r \<in> set (join_rows s). whole_price (p_price (snd r)))
                \<and> (\<Sum>r\<leftarrow>join_rows s. \<bar>oi_quantity (fst r) * units (p_price (snd r))\<bar>) < 2 ^ 53
                \<longrightarrow> js_total (Fin 0) (select_cart_items E s) =
                      Fin (of_int (\<Sum>r\<leftarrow>join_rows s.
                                     oi_quantity (fst r) * units (p_price (snd r)))))"
      apply (rule exI [of _ "orders_id_seq s + 1"])
      apply (rule exI [of _ c])
      apply (intro conjI)
      subgoal using co by simp
      subgoal using c by simp
      subgoal using co by simp
      subgoal using co by simp
      subgoal using co bind_lines_mem [of _ "order_items s" "orders_id_seq s + 1"] by simp
      subgoal using in_select_cart_items [of _ s _ E] by simp
      subgoal by (rule mset_select_cart_items)
      subgoal by (rule exact)
      done
  qed
qed

theorem cart_is_global_witness:
  "add_to_cart sample_env user1 two_mice_request seed_db =
     add_to_cart sample_env user2 two_mice_request seed_db
   \<and> get_cart sample_env user1 checkout_request cart_round_prices =
       get_cart sample_env user2 checkout_request cart_round_prices
   \<and> status (fst (checkout sample_env user1 checkout_request cart_round_prices)) = 200
   \<and> map (\<lambda>oi. (oi_order_id oi, oi_product_id oi, oi_quantity oi))
       (order_items cart_round_prices) = [(None, 1, 2), (None, 2, 3)]
   \<and> list_all (\<lambda>r. whole_price (p_price (snd r))) (join_rows cart_round_prices)
   \<and> (\<Sum>r\<leftarrow>join_rows cart_round_prices. \<bar>oi_quantity (fst r) * units (p_price (snd r))\<bar>)
       < 2 ^ 53
   \<and> body (fst (checkout sample_env user1 checkout_request cart_round_prices)) =
       CheckoutBody ''Checkout successful!'' 1 (Fin 330)
   \<and> orders (snd (checkout sample_env user1 checkout_request cart_round_prices)) =
       [\<lparr>o_id = 1, o_user_id = 1, o_total_amount = Cents 33000, o_status = ''completed''\<rparr>]
   \<and> map (\<lambda>oi. (oi_order_id oi, oi_product_id oi, oi_quantity oi))
       (order_items (snd (checkout sample_env user1 checkout_request cart_round_prices))) =
       [(Some 1, 1, 2), (Some 1, 2, 3)]"
proof -
  have ok: "status (fst (checkout sample_env user1 checkout_request cart_round_prices)) = 200"
    by code_simp
  have lines: "map (\<lambda>oi. (oi_order_id oi, oi_product_id oi, oi_quantity oi))
       (order_items cart_round_prices) = [(None, 1, 2), (None, 2, 3)]"
    by code_simp
  have whole': "list_all (\<lambda>r. whole_price (p_price (snd r))) (join_rows cart_round_prices)"
    by code_simp
  then have whole: "\<forall>r \<in> set (join_rows cart_round_prices). whole_price (p_price (snd r))"
    by (simp add: list_all_iff)
  have small: "(\<Sum>r\<leftarrow>join_rows cart_round_prices.
                  \<bar>oi_quantity (fst r) * units (p_price (snd r))\<bar>) < 2 ^ 53"
    by code_simp
  have sum: "(\<Sum>r\<leftarrow>join_rows cart_round_prices.
                oi_quantity (fst r) * units (p_price (snd r))) = 330"
    by code_simp
  have store: "numeric_10_2 (number_param (Fin 330)) = Inr (Cents 33000)"
    by code_simp
  have seq: "orders cart_round_prices = [] \<and> userId user1 = 1"
    by code_simp
  have bound: "map (\<lambda>oi. (oi_order_id oi, oi_product_id oi, oi_quantity oi))
       (bind_lines 1 (order_items cart_round_prices)) = [(Some 1, 1, 2), (Some 1, 2, 3)]"
    by code_simp
  have oid: "body (fst (checkout sample_env user1 checkout_request cart_round_prices)) =
       CheckoutBody ''Checkout successful!'' 1 (Fin 330)"
    by code_simp
  note g = cart_is_global [where s = cart_round_prices and u = user1 and E = sample_env
      and req = checkout_request and ua = user1 and ub = user2 and ra = checkout_request
      and rb = checkout_request]
  note h = cart_is_global [where s = seed_db and E = sample_env and ua = user1 and ub = user2
      and req = two_mice_request]
  from h have same: "add_to_cart sample_env user1 two_mice_request seed_db =
       add_to_cart sample_env user2 two_mice_request seed_db"
    by blast
  from g have list: "get_cart sample_env user1 checkout_request cart_round_prices =
       get_cart sample_env user2 checkout_request cart_round_prices"
    by blast
  from g ok whole small obtain orderId c where
    b: "body (fst (checkout sample_env user1 checkout_request cart_round_prices)) =
              CheckoutBody ''Checkout successful!'' orderId
                (js_total (Fin 0) (select_cart_items sample_env cart_round_prices))"
    and c: "numeric_10_2 (number_param (js_total (Fin 0)
              (select_cart_items sample_env cart_round_prices))) = Inr c"
    and o: "orders (snd (checkout sample_env user1 checkout_request cart_round_prices)) =
            orders cart_round_prices @
              [\<lparr>o_id = orderId, o_user_id = userId user1, o_total_amount = c,
                o_status = ''completed''\<rparr>]"
    and i: "order_items (snd (checkout sample_env user1 checkout_request cart_round_prices)) =
              bind_lines orderId (order_items cart_round_prices)"
    and t: "js_total (Fin 0) (select_cart_items sample_env cart_round_prices) =
              Fin (of_int (\<Sum>r\<leftarrow>join_rows cart_round_prices.
                             oi_quantity (fst r) * units (p_price (snd r))))"
    by blast
  from t sum have t': "js_total (Fin 0) (select_cart_items sample_env cart_round_prices) = Fin 330"
    by simp
  from b oid have oid': "orderId = 1" by simp
  from c t' store have c': "c = Cents 33000" by simp
  from same list ok lines whole' small b o i t' oid' c' seq bound show ?thesis by simp
qed

section \<open>Validation of the request bodies\<close>

text \<open>
  C10. \<^verbatim>\<open>POST /api/products\<close> answers 400 and changes nothing when the name, the price
  or the stock of the request is falsy; the number zero is falsy, so a price of zero or a
  stock of zero is refused like a missing field.
\<close>

theorem add_product_rejects_falsy:
  "(falsy (req_body req ''name'') \<or> falsy (req_body req ''price'')
      \<or> falsy (req_body req ''stock'') \<longrightarrow>
      add_product E user req s =
        (reply 400 (Message ''Name, price, and stock are required.''), s))
   \<and> (req_body req ''price'' = JNum 0 \<or> req_body req ''stock'' = JNum 0 \<longrightarrow>
      add_product E user req s =
        (reply 400 (Message ''Name, price, and stock are required.''), s))"
  by (auto simp add: add_product_def Let_def)

theorem add_product_rejects_falsy_witness:
  "req_body free_pen_request ''price'' = JNum 0
   \<and> add_product sample_env user1 free_pen_request seed_db =
       (reply 400 (Message ''Name, price, and stock are required.''), seed_db)
   \<and> falsy (req_body sold_out_pen_request ''stock'')
   \<and> add_product sample_env user1 sold_out_pen_request seed_db =
       (reply 400 (Message ''Name, price, and stock are required.''), seed_db)"
proof -
  have a: "req_body free_pen_request ''price'' = JNum 0"
    by (simp add: free_pen_request_def bearer_request_def json_body_def)
  have b: "falsy (req_body sold_out_pen_request ''stock'')"
    by (simp add: sold_out_pen_request_def bearer_request_def json_body_def)
  show ?thesis
    using a b add_product_rejects_falsy [of free_pen_request sample_env user1 seed_db]
      add_product_rejects_falsy [of sold_out_pen_request sample_env user1 seed_db]
    by blast
qed

lemma to_int4_range: "to_int4 E v = Inr (Some n) \<Longrightarrow> in_int4 n"
  by (cases v) (auto split: if_splits option.splits)

lemma to_int4_number: "to_int4 E (JNum d) = Inr (Some n) \<Longrightarrow> d = of_int n"
  by (auto split: if_splits)

lemma insert_order_item_cases:
  "(\<exists>e s'. insert_order_item E pid qty price s = (Inl e, s') \<and> order_items s' = order_items s)
   \<or> (\<exists>row. insert_order_item E pid qty price s =
               (Inr row, s\<lparr>order_items_id_seq := order_items_id_seq s + 1,
                           order_items := order_items s @ [row]\<rparr>)
          \<and> oi_order_id row = None \<and> oi_price row = price
          \<and> to_int4 E qty = Inr (Some (oi_quantity row)))"
proof (cases "to_int4 E pid")
  case (Inl e)
  then show ?thesis by (simp add: insert_order_item_def)
next
  case pid: (Inr p)
  show ?thesis
  proof (cases "to_int4 E qty")
    case (Inl e)
    with pid show ?thesis by (simp add: insert_order_item_def)
  next
    case qty: (Inr q)
    show ?thesis
    proof (cases p)
      case None
      with pid qty show ?thesis by (simp add: insert_order_item_def Let_def)
    next
      case p': (Some p')
      show ?thesis
      proof (cases q)
        case None
        with pid qty p' show ?thesis by (simp add: insert_order_item_def Let_def)
      next
        case (Some q')
        with pid qty p' show ?thesis by (simp add: insert_order_item_def Let_def)
      qed
    qed
  qed
qed

lemma add_to_cart_falsy:
  "falsy (req_body req ''product_id'') \<or> falsy (req_body req ''quantity'') \<Longrightarrow>
     add_to_cart E user req s =
       (reply 400 (Message ''Product ID and quantity are required.''), s)"
  by (simp add: add_to_cart_def Let_def)

lemma add_to_cart_unreadable:
  "\<not> falsy (req_body req ''product_id'') \<Longrightarrow> \<not> falsy (req_body req ''quantity'') \<Longrightarrow>
     to_int4 E (req_body req ''product_id'') = Inl e \<Longrightarrow>
     add_to_cart E user req s = (reply 500 (Message ''Internal server error.''), s)"
  by (simp add: add_to_cart_def Let_def)

lemma add_to_cart_not_found:
  "\<not> falsy (req_body req ''product_id'') \<Longrightarrow> \<not> falsy (req_body req ''quantity'') \<Longrightarrow>
     to_int4 E (req_body req ''product_id'') = Inr pid \<Longrightarrow>
     filter (\<lambda>p. Some (p_id p) = pid) (products s) = [] \<Longrightarrow>
     add_to_cart E user req s = (reply 404 (Message ''Product not found.''), s)"
  by (simp add: add_to_cart_def Let_def)

lemma add_to_cart_found:
  "\<not> falsy (req_body req ''product_id'') \<Longrightarrow> \<not> falsy (req_body req ''quantity'') \<Longrightarrow>
     to_int4 E (req_body req ''product_id'') = Inr pid \<Longrightarrow>
     filter (\<lambda>p. Some (p_id p) = pid) (products s) = p # ps \<Longrightarrow>
     add_to_cart E user req s =
       (case insert_order_item E (req_body req ''product_id'') (req_body req ''quantity'')
               (p_price p) s of
          (Inr row, s') \<Rightarrow> (reply 201 (ItemBody ''Item added to cart successfully!'' row), s')
        | (Inl e, s') \<Rightarrow> (reply 500 (Message ''Internal server error.''), s'))"
  by (simp add: add_to_cart_def Let_def)

text \<open>
  C8, as the code has it. \<^verbatim>\<open>POST /api/cart\<close> either stores no line, or stores one line
  whose quantity is the 32-bit integer that the store reads from the quantity of the
  request, which is not falsy. When that quantity is a JSON number, the stored quantity is
  this number and is not zero; it may be negative.
\<close>

theorem add_to_cart_quantity:
  "(status (fst (add_to_cart E user req s)) \<noteq> 201
      \<and> order_items (snd (add_to_cart E user req s)) = order_items s)
   \<or> (\<exists>row. fst (add_to_cart E user req s) =
               reply 201 (ItemBody ''Item added to cart successfully!'' row)
         \<and> order_items (snd (add_to_cart E user req s)) = order_items s @ [row]
         \<and> oi_order_id row = None
         \<and> \<not> falsy (req_body req ''quantity'')
         \<and> to_int4 E (req_body req ''quantity'') = Inr (Some (oi_quantity row))
         \<and> in_int4 (oi_quantity row)
         \<and> (\<forall>d. req_body req ''quantity'' = JNum d \<longrightarrow>
               d = of_int (oi_quantity row) \<and> oi_quantity row \<noteq> 0))"
proof (cases "falsy (req_body req ''product_id'') \<or> falsy (req_body req ''quantity'')")
  case True
  from add_to_cart_falsy [OF True] show ?thesis
    by (intro disjI1) simp
next
  case False
  then have t1: "\<not> falsy (req_body req ''product_id'')"
    and t2: "\<not> falsy (req_body req ''quantity'')"
    by simp_all
  show ?thesis
  proof (cases "to_int4 E (req_body req ''product_id'')")
    case (Inl e)
    from add_to_cart_unreadable [OF t1 t2 Inl] show ?thesis
      by (intro disjI1) simp
  next
    case pid: (Inr pid)
    show ?thesis
    proof (cases "filter (\<lambda>p. Some (p_id p) = pid) (products s)")
      case Nil
      from add_to_cart_not_found [OF t1 t2 pid Nil] show ?thesis
        by (intro disjI1) simp
    next
      case (Cons p ps)
      let ?ins = "insert_order_item E (req_body req ''product_id'') (req_body req ''quantity'')
                    (p_price p) s"
      note found = add_to_cart_found [OF t1 t2 pid Cons, of user]
      from insert_order_item_cases [of E "req_body req ''product_id''"
          "req_body req ''quantity''" "p_price p" s]
      show ?thesis
      proof
        assume "\<exists>e s'. ?ins = (Inl e, s') \<and> order_items s' = order_items s"
        then obtain e s' where "?ins = (Inl e, s')" and "order_items s' = order_items s"
          by blast
        with found have "add_to_cart E user req s =
            (reply 500 (Message ''Internal server error.''), s')"
          by simp
        with \<open>order_items s' = order_items s\<close> show ?thesis
          by (intro disjI1) simp
      next
        assume "\<exists>row. ?ins =
               (Inr row, s\<lparr>order_items_id_seq := order_items_id_seq s + 1,
                           order_items := order_items s @ [row]\<rparr>)
          \<and> oi_order_id row = None \<and> oi_price row = p_price p
          \<and> to_int4 E (req_body req ''quantity'') = Inr (Some (oi_quantity row))"
        then obtain row where
          ins: "?ins = (Inr row, s\<lparr>order_items_id_seq := order_items_id_seq s + 1,
                           order_items := order_items s @ [row]\<rparr>)"
          and n: "oi_order_id row = None"
          and q: "to_int4 E (req_body req ''quantity'') = Inr (Some (oi_quantity row))"
          by blast
        from found ins
        have res: "add_to_cart E user req s =
               (reply 201 (ItemBody ''Item added to cart successfully!'' row),
                s\<lparr>order_items_id_seq := order_items_id_seq s + 1,
                   order_items := order_items s @ [row]\<rparr>)"
          by simp
        have num: "\<forall>d. req_body req ''quantity'' = JNum d \<longrightarrow>
               d = of_int (oi_quantity row) \<and> oi_quantity row \<noteq> 0"
        proof (intro allI impI)
          fix d assume d: "req_body req ''quantity'' = JNum d"
          from q have "d = of_int (oi_quantity row)"
            unfolding d by (rule to_int4_number)
          moreover from t2 have "d \<noteq> 0" unfolding d by simp
          ultimately show "d = of_int (oi_quantity row) \<and> oi_quantity row \<noteq> 0"
            by auto
        qed
        show ?thesis
        proof (intro disjI2 exI [of _ row] conjI)
          show "fst (add_to_cart E user req s) =
                  reply 201 (ItemBody ''Item added to cart successfully!'' row)"
            by (simp add: res)
          show "order_items (snd (add_to_cart E user req s)) = order_items s @ [row]"
            by (simp add: res)
          show "oi_order_id row = None" by (rule n)
          show "\<not> falsy (req_body req ''quantity'')" by (rule t2)
          show "to_int4 E (req_body req ''quantity'') = Inr (Some (oi_quantity row))"
            by (rule q)
          show "in_int4 (oi_quantity row)" by (rule to_int4_range [OF q])
          show "\<forall>d. req_body req ''quantity'' = JNum d \<longrightarrow>
               d = of_int (oi_quantity row) \<and> oi_quantity row \<noteq> 0"
            by (rule num)
        qed
      qed
    qed
  qed
qed

theorem add_to_cart_quantity_witness:
  "status (fst (add_to_cart sample_env user1 minus_one_mouse_request seed_db)) = 201
   \<and> req_body minus_one_mouse_request ''quantity'' = JNum (- 1)
   \<and> (\<exists>row. order_items (snd (add_to_cart sample_env user1 minus_one_mouse_request seed_db)) =
               order_items seed_db @ [row]
          \<and> (- 1 :: rat) = of_int (oi_quantity row) \<and> oi_quantity row \<noteq> 0)"
proof -
  have ok: "status (fst (add_to_cart sample_env user1 minus_one_mouse_request seed_db)) = 201"
    by code_simp
  have q: "req_body minus_one_mouse_request ''quantity'' = JNum (- 1)"
    by (simp add: minus_one_mouse_request_def bearer_request_def json_body_def)
  from add_to_cart_quantity [of sample_env user1 minus_one_mouse_request seed_db] ok q
  show ?thesis by blast
qed

text \<open>
  C8 as stated fails: a quantity of \<open>-1\<close> is accepted and stored, and the checkout that
  follows processes it, answers 200 with a negative total and raises the stock to 101.
\<close>

theorem negative_quantity_stored:
  "fst (api_add_to_cart sample_env minus_one_mouse_request seed_db) =
     reply 201 (ItemBody ''Item added to cart successfully!''
       \<lparr>oi_id = 1, oi_order_id = None, oi_product_id = 1, oi_quantity = - 1, oi_price = Cents 2550\<rparr>)
   \<and> order_items (snd (api_add_to_cart sample_env minus_one_mouse_request seed_db)) =
       [\<lparr>oi_id = 1, oi_order_id = None, oi_product_id = 1, oi_quantity = - 1,
         oi_price = Cents 2550\<rparr>]
   \<and> fst (api_checkout sample_env checkout_request
            (snd (api_add_to_cart sample_env minus_one_mouse_request seed_db))) =
       reply 200 (CheckoutBody ''Checkout successful!'' 1 (Fin (- 51 / 2)))
   \<and> map p_stock (products (snd (api_checkout sample_env checkout_request
            (snd (api_add_to_cart sample_env minus_one_mouse_request seed_db))))) = [101, 50]"
  by code_simp

section \<open>The price a checkout charges\<close>

text \<open>
  The items a checkout reads do not depend on the prices kept in the lines: whatever
  snapshots the lines carry, the rows of the join give the same items.
\<close>

lemma cart_items_ignore_line_price:
  "map cart_item_of
     (join_rows (s\<lparr>order_items := map (\<lambda>oi. oi\<lparr>oi_price := f oi\<rparr>) (order_items s)\<rparr>)) =
   map cart_item_of (join_rows s)"
  by (simp add: join_rows_def filter_map o_def map_concat cart_item_of_def)

text \<open>
  C1, on the code. The line is put in the cart when the mouse costs 25.50, and the line
  keeps that price; the catalog price is then set to 30. The checkout answers and stores
  a total of 30: it reads the price of the product, not the price of the line. The order
  history then shows an order of 30.00 whose only line is one mouse at 25.50.
\<close>

theorem checkout_charges_catalog_price:
  "order_items repriced_cart =
     [\<lparr>oi_id = 1, oi_order_id = None, oi_product_id = 1, oi_quantity = 1,
       oi_price = Cents 2550\<rparr>]
   \<and> fst (api_checkout sample_env checkout_request repriced_cart) =
       reply 200 (CheckoutBody ''Checkout successful!'' 1 (Fin 30))
   \<and> orders (snd (api_checkout sample_env checkout_request repriced_cart)) =
       [\<lparr>o_id = 1, o_user_id = 1, o_total_amount = Cents 3000, o_status = ''completed''\<rparr>]
   \<and> order_items (snd (api_checkout sample_env checkout_request repriced_cart)) =
       [\<lparr>oi_id = 1, oi_order_id = Some 1, oi_product_id = 1, oi_quantity = 1,
         oi_price = Cents 2550\<rparr>]
   \<and> fst (api_get_orders sample_env checkout_request
            (snd (api_checkout sample_env checkout_request repriced_cart))) =
       reply 200 (OrdersBody
         [\<lparr>ov_order_id = 1, ov_total_amount = Cents 3000, ov_status = ''completed'',
           ov_items = [\<lparr>ol_product_id = 1, ol_name = ''Wireless Mouse'', ol_quantity = 1,
                        ol_price = Cents 2550\<rparr>]\<rparr>])"
  by code_simp

section \<open>Stock\<close>

lemma update_stock_fit:
  "\<not> aborted t \<Longrightarrow>
     \<forall>p \<in> set (products (work t)).
        p_id p = ci_product_id item \<longrightarrow> in_int4 (p_stock p - ci_quantity item) \<Longrightarrow>
     update_stock False (ci_quantity item) (ci_product_id item) t =
       (None, t\<lparr>work := (work t)\<lparr>products := decrement item (products (work t))\<rparr>\<rparr>)"
  by (auto simp add: update_stock_def decrement_def)

lemma rejected_snoc: "rejected (ups @ [None]) = rejected ups"
  by (simp add: rejected_def)

lemma update_stock_overflow:
  "\<not> aborted t \<Longrightarrow>
     \<not> (\<forall>p \<in> set (products (work t)).
          p_id p = ci_product_id item \<longrightarrow> in_int4 (p_stock p - ci_quantity item)) \<Longrightarrow>
     update_stock False (ci_quantity item) (ci_product_id item) t =
       (Some NumericValueOutOfRange, t\<lparr>aborted := True\<rparr>)"
  by (auto simp add: update_stock_def)

text \<open>
  The loop leaves at the first item that asks for more than the stock read with it.
\<close>

lemma verify_loop_first_short:
  "find (\<lambda>i. ci_stock i < ci_quantity i) items = Some item \<Longrightarrow>
     fst (verify_loop F items k tot ups t) = InsufficientStock (ci_product_id item)"
proof (induction items arbitrary: k tot ups t)
  case Nil
  then show ?case by simp
next
  case (Cons a items)
  show ?case
  proof (cases "ci_stock a < ci_quantity a")
    case True
    with Cons.prems show ?thesis by simp
  next
    case False
    with Cons.prems have "find (\<lambda>i. ci_stock i < ci_quantity i) items = Some item" by simp
    from Cons.IH [OF this] False show ?thesis
      by (simp split: prod.splits)
  qed
qed

text \<open>
  When the store fails no statement for a reason outside the data, a stock update of the
  loop is rejected exactly when a stock update of the items before the first one that asks
  for too much leaves the 32 bits of the stock.
\<close>

lemma verify_loop_rejected_iff:
  "verify_loop (\<lambda>st. False) items k tot ups t = (ex, ups', t') \<Longrightarrow> \<not> aborted t \<Longrightarrow>
     \<not> rejected ups \<Longrightarrow>
     rejected ups' =
       (\<not> decrements_fit (takeWhile (\<lambda>i. ci_quantity i \<le> ci_stock i) items)
            (products (work t)))"
proof (induction items arbitrary: k tot ups t)
  case Nil
  then show ?case by simp
next
  case (Cons item items)
  let ?tot = "js_add tot (js_mul (parseFloat (ci_price item)) (Fin (of_int (ci_quantity item))))"
  show ?case
  proof (cases "ci_stock item < ci_quantity item")
    case True
    with Cons.prems show ?thesis by simp
  next
    case False
    then have tw: "takeWhile (\<lambda>i. ci_quantity i \<le> ci_stock i) (item # items) =
                     item # takeWhile (\<lambda>i. ci_quantity i \<le> ci_stock i) items"
      by simp
    show ?thesis
    proof (cases "\<forall>p \<in> set (products (work t)).
                    p_id p = ci_product_id item \<longrightarrow> in_int4 (p_stock p - ci_quantity item)")
      case fit: True
      let ?t1 = "t\<lparr>work := (work t)\<lparr>products := decrement item (products (work t))\<rparr>\<rparr>"
      note u = update_stock_fit [OF Cons.prems(2) fit]
      from Cons.prems(1) False u
      have rec: "verify_loop (\<lambda>st. False) items (Suc k) ?tot (ups @ [None]) ?t1 = (ex, ups', t')"
        by simp
      from Cons.prems(2) have live: "\<not> aborted ?t1" by simp
      from Cons.prems(3) have clean: "\<not> rejected (ups @ [None])" by (simp add: rejected_snoc)
      from Cons.IH [OF rec live clean] fit show ?thesis
        by (simp only: tw decrements_fit.simps) simp
    next
      case unfit: False
      note u = update_stock_overflow [OF Cons.prems(2) unfit]
      from Cons.prems(1) False u
      have rec: "verify_loop (\<lambda>st. False) items (Suc k) ?tot
                   (ups @ [Some NumericValueOutOfRange]) (t\<lparr>aborted := True\<rparr>) = (ex, ups', t')"
        by simp
      from verify_loop_promises [OF rec] have "Some NumericValueOutOfRange \<in> set ups'"
        by auto
      then have "rejected ups'" by (auto simp add: rejected_def)
      with unfit show ?thesis
        by (simp only: tw decrements_fit.simps) simp
    qed
  qed
qed

text \<open>
  A cart with a line that asks for more than the stock read with it: the database stays
  as it is, and the answer is the 400 of the first such line unless a stock update sent
  before it was rejected.
\<close>

lemma checkout_insufficient:
  assumes first: "find (\<lambda>i. ci_stock i < ci_quantity i) (select_cart_items E s) = Some item"
  shows "checkout E user req s =
           ((if decrements_fit
                  (takeWhile (\<lambda>i. ci_quantity i \<le> ci_stock i) (select_cart_items E s))
                  (products s)
             then reply 400 (Message (''Insufficient stock for product ID ''
                                        @ show_int (ci_product_id item) @ ''.''))
             else no_response), s)"
proof -
  define items where "items = select_cart_items E s"
  from first have ne: "items \<noteq> []" unfolding items_def by auto
  obtain ex ups t1 where
    loop: "verify_loop (\<lambda>st. False) items 0 (Fin 0) [] (begin_txn s) = (ex, ups, t1)"
    by (cases "verify_loop (\<lambda>st. False) items 0 (Fin 0) [] (begin_txn s)")
  from verify_loop_first_short [OF first, of "\<lambda>st. False" 0 "Fin 0" "[]" "begin_txn s"] loop
  have ex: "ex = InsufficientStock (ci_product_id item)"
    unfolding items_def by simp
  from verify_loop_seqs [OF loop] have same: "rollback s t1 = s"
    by (intro rollback_same_seqs) (simp_all add: begin_txn_def)
  from verify_loop_rejected_iff [OF loop]
  have rej: "rejected ups =
               (\<not> decrements_fit (takeWhile (\<lambda>i. ci_quantity i \<le> ci_stock i) items)
                    (products s))"
    by (simp add: begin_txn_def rejected_def)
  show ?thesis
  proof (cases "rejected ups")
    case True
    with ne loop same have "checkout E user req s = (no_response, s)"
      by (simp add: checkout_def checkout_under_def Let_def items_def begin_txn_def)
    with True rej show ?thesis unfolding items_def by simp
  next
    case False
    with ne loop same ex
    have "checkout E user req s =
            (reply 400 (Message (''Insufficient stock for product ID ''
                                   @ show_int (ci_product_id item) @ ''.'')), s)"
      by (simp add: checkout_def checkout_under_def Let_def items_def begin_txn_def)
    with False rej show ?thesis unfolding items_def by simp
  qed
qed

lemma first_short:
  "\<exists>item \<in> set items. ci_stock item < ci_quantity item \<Longrightarrow>
     \<exists>item \<in> set items. ci_stock item < ci_quantity item
        \<and> find (\<lambda>i. ci_stock i < ci_quantity i) items = Some item"
proof (induction items)
  case Nil
  then show ?case by simp
next
  case (Cons a items)
  then show ?case by (cases "ci_stock a < ci_quantity a") auto
qed

text \<open>
  The decrements of all items take from each product what its lines ask together.
\<close>

lemma requested_Nil: "requested [] pid = 0"
  by (simp add: requested_def)

lemma requested_Cons:
  "requested (item # items) pid =
     (if ci_product_id item = pid then ci_quantity item else 0) + requested items pid"
  by (simp add: requested_def)

lemma decrement_all_Cons:
  "decrement_all (item # items) ps = decrement_all items (decrement item ps)"
  by (simp add: decrement_all_def)

lemma decrement_all_requested:
  "decrement_all items ps =
     map (\<lambda>p. p\<lparr>p_stock := p_stock p - requested items (p_id p)\<rparr>) ps"
proof (induction items arbitrary: ps)
  case Nil
  then show ?case by (simp add: decrement_all_def requested_Nil)
next
  case (Cons item items)
  have "decrement_all (item # items) ps =
          map (\<lambda>p. p\<lparr>p_stock := p_stock p - requested items (p_id p)\<rparr>) (decrement item ps)"
    by (simp only: decrement_all_Cons Cons.IH)
  also have "\<dots> = map (\<lambda>p. p\<lparr>p_stock := p_stock p - requested (item # items) (p_id p)\<rparr>) ps"
    by (simp add: decrement_def requested_Cons)
  finally show ?case .
qed

lemma requested_none:
  "\<forall>item \<in> set items. ci_product_id item \<noteq> pid \<Longrightarrow> requested items pid = 0"
  by (induction items) (simp_all add: requested_Nil requested_Cons)

lemma requested_distinct:
  "distinct (map ci_product_id items) \<Longrightarrow> item \<in> set items \<Longrightarrow>
     requested items (ci_product_id item) = ci_quantity item"
proof (induction items)
  case Nil
  then show ?case by simp
next
  case (Cons a items)
  from Cons.prems(1) have "ci_product_id a \<notin> ci_product_id ` set items"
    by simp
  then have fresh: "\<forall>it \<in> set items. ci_product_id it \<noteq> ci_product_id a"
    by (metis imageI)
  show ?case
  proof (cases "item = a")
    case True
    with requested_none [OF fresh] show ?thesis by (simp add: requested_Cons)
  next
    case False
    with Cons.prems have mem: "item \<in> set items" by simp
    with fresh have "ci_product_id a \<noteq> ci_product_id item" by auto
    with Cons.IH [OF _ mem] Cons.prems(1) show ?thesis by (simp add: requested_Cons)
  qed
qed

lemma checkout_stock_after:
  assumes ok: "status (fst (checkout E user req s)) = 200"
  shows "products (snd (checkout E user req s)) =
           map (\<lambda>p. p\<lparr>p_stock := p_stock p - requested (select_cart_items E s) (p_id p)\<rparr>)
             (products s)"
proof -
  from ok have "status (fst (checkout_under (\<lambda>st. False) E user req s)) = 200"
    by (simp add: checkout_def)
  from checkout_under_success [OF this]
  have "products (snd (checkout E user req s)) =
          decrement_all (select_cart_items E s) (products s)"
    unfolding checkout_def by auto
  then show ?thesis by (simp only: decrement_all_requested)
qed

lemma checkout_keeps_stock_nonnegative:
  assumes ok: "status (fst (checkout E user req s)) = 200"
    and within: "\<forall>p \<in> set (products s). requested (select_cart_items E s) (p_id p) \<le> p_stock p"
  shows "\<forall>p \<in> set (products (snd (checkout E user req s))). 0 \<le> p_stock p"
  using within by (auto simp add: checkout_stock_after [OF ok])

text \<open>
  With lines for pairwise different products, the check of each line against the stock
  read with it is the check of what is asked of the product.
\<close>

lemma distinct_lines_within:
  assumes ok: "status (fst (checkout E user req s)) = 200"
    and dist: "distinct (map ci_product_id (select_cart_items E s))"
    and nonneg: "\<forall>p \<in> set (products s). 0 \<le> p_stock p"
  shows "\<forall>p \<in> set (products s). requested (select_cart_items E s) (p_id p) \<le> p_stock p"
proof
  fix p assume p: "p \<in> set (products s)"
  from ok have "status (fst (checkout_under (\<lambda>st. False) E user req s)) = 200"
    by (simp add: checkout_def)
  from checkout_under_success [OF this]
  have le: "\<forall>item \<in> set (select_cart_items E s). ci_quantity item \<le> ci_stock item"
    by auto
  show "requested (select_cart_items E s) (p_id p) \<le> p_stock p"
  proof (cases "\<exists>item \<in> set (select_cart_items E s). ci_product_id item = p_id p")
    case False
    then have "requested (select_cart_items E s) (p_id p) = 0"
      by (intro requested_none) auto
    with nonneg p show ?thesis by simp
  next
    case True
    then obtain item where item: "item \<in> set (select_cart_items E s)"
      and pid: "ci_product_id item = p_id p"
      by blast
    from item obtain r where r: "r \<in> set (join_rows s)" and eq: "item = cart_item_of r"
      by (auto simp add: set_select_cart_items)
    from join_rowsD [OF r] eq pid
    have "(fst r, p) \<in> set (join_rows s)"
      by (intro in_join_rows p) simp_all
    then have other: "cart_item_of (fst r, p) \<in> set (select_cart_items E s)"
      by (simp add: set_select_cart_items)
    from dist have "inj_on ci_product_id (set (select_cart_items E s))"
      by (simp add: distinct_map)
    from inj_onD [OF this _ item other] eq have "item = cart_item_of (fst r, p)"
      by simp
    then have "ci_stock item = p_stock p" by simp
    moreover from requested_distinct [OF dist item] pid
    have "requested (select_cart_items E s) (p_id p) = ci_quantity item" by simp
    ultimately show ?thesis using le item by auto
  qed
qed

lemma update_where_total:
  "\<forall>p. P p \<longrightarrow> f p = Inr (g p) \<Longrightarrow>
     update_where P f ps = Inr (map (\<lambda>p. if P p then g p else p) ps, map g (filter P ps))"
  by (induction ps) (simp_all add: and_then_def)

lemma update_row_stock:
  "update_row None None None (Some n) None p = Inr (p\<lparr>p_stock := n\<rparr>)"
  by (cases p) (simp add: update_row_def and_then_def coalesce_def)

lemma update_product_stock:
  assumes i: "to_int4 E (JStr (param_id req)) = Inr (Some i)"
    and st: "req_body req ''stock'' = JNum (of_int n)" and n: "in_int4 n"
    and rest: "req_body req ''name'' = JUndefined" "req_body req ''description'' = JUndefined"
      "req_body req ''price'' = JUndefined" "req_body req ''image_url'' = JUndefined"
    and ex: "\<exists>p \<in> set (products s). p_id p = i"
  shows "status (fst (update_product E user req s)) = 200
       \<and> products (snd (update_product E user req s)) =
           map (\<lambda>p. if p_id p = i then p\<lparr>p_stock := n\<rparr> else p) (products s)"
proof -
  have uw: "update_where (\<lambda>p. p_id p = i)
              (update_row None None None (Some n) None) (products s) =
            Inr (map (\<lambda>p. if p_id p = i then p\<lparr>p_stock := n\<rparr> else p) (products s),
                 map (\<lambda>p. p\<lparr>p_stock := n\<rparr>) (filter (\<lambda>p. p_id p = i) (products s)))"
    by (rule update_where_total) (simp add: update_row_stock)
  from ex have "filter (\<lambda>p. p_id p = i) (products s) \<noteq> []"
    by (auto simp add: filter_empty_conv)
  then obtain r rs where rows:
    "map (\<lambda>p. p\<lparr>p_stock := n\<rparr>) (filter (\<lambda>p. p_id p = i) (products s)) = r # rs"
    by (cases "filter (\<lambda>p. p_id p = i) (products s)") auto
  have i': "(case int4_in E (param_id req) of
        None \<Rightarrow> Inl InvalidTextRepresentation
      | Some n \<Rightarrow> if in_int4 n then Inr (Some n) else Inl NumericValueOutOfRange) = Inr (Some i)"
    using i by simp
  show ?thesis
    unfolding update_product_def Let_def st rest
    using n by (simp add: and_then_def i' uw rows)
qed

text \<open>
  C2, as the code has it. The stock is guarded line by line, by the checkout only.
  A checkout that reads a line whose quantity exceeds the stock read with it leaves the
  database unchanged. It answers the 400 of the first such line when the stock updates of
  the lines before it all stay within 32 bits; otherwise one of them was rejected, the
  process ends and there is no answer. A successful checkout takes from the stock of
  each product what its lines ask together: every stock is then non-negative when no
  product is asked for more than its stock, and in particular when the lines are for
  pairwise different products and every stock was non-negative before. A product update
  stores the stock it is given: an update that sends only the stock, any 32-bit integer,
  sets the stock of the product to it.
\<close>

theorem stock_guard:
  "((\<exists>item \<in> set (select_cart_items E s). ci_stock item < ci_quantity item) \<longrightarrow>
      snd (checkout E user req s) = s
      \<and> (\<exists>item \<in> set (select_cart_items E s). ci_stock item < ci_quantity item
            \<and> find (\<lambda>i. ci_stock i < ci_quantity i) (select_cart_items E s) = Some item
            \<and> fst (checkout E user req s) =
                (if decrements_fit
                      (takeWhile (\<lambda>i. ci_quantity i \<le> ci_stock i) (select_cart_items E s))
                      (products s)
                 then reply 400 (Message (''Insufficient stock for product ID ''
                                            @ show_int (ci_product_id item) @ ''.''))
                 else no_response)))
   \<and> (status (fst (checkout E user req s)) = 200 \<longrightarrow>
        products (snd (checkout E user req s)) =
          map (\<lambda>p. p\<lparr>p_stock := p_stock p - requested (select_cart_items E s) (p_id p)\<rparr>)
            (products s)
        \<and> ((\<forall>p \<in> set (products s). requested (select_cart_items E s) (p_id p) \<le> p_stock p)
             \<longrightarrow> (\<forall>p \<in> set (products (snd (checkout E user req s))). 0 \<le> p_stock p))
        \<and> (distinct (map ci_product_id (select_cart_items E s))
             \<and> (\<forall>p \<in> set (products s). 0 \<le> p_stock p)
             \<longrightarrow> (\<forall>p \<in> set (products (snd (checkout E user req s))). 0 \<le> p_stock p)))
   \<and> (to_int4 E (JStr (param_id r)) = Inr (Some i)
        \<and> req_body r ''stock'' = JNum (of_int n) \<and> in_int4 n
        \<and> req_body r ''name'' = JUndefined \<and> req_body r ''description'' = JUndefined
        \<and> req_body r ''price'' = JUndefined \<and> req_body r ''image_url'' = JUndefined
        \<and> (\<exists>p \<in> set (products s). p_id p = i) \<longrightarrow>
      status (fst (update_product E user r s)) = 200
      \<and> products (snd (update_product E user r s)) =
          map (\<lambda>p. if p_id p = i then p\<lparr>p_stock := n\<rparr> else p) (products s))"
proof (intro conjI impI)
  assume "\<exists>item \<in> set (select_cart_items E s). ci_stock item < ci_quantity item"
  from first_short [OF this] obtain item where
    item: "item \<in> set (select_cart_items E s)" "ci_stock item < ci_quantity item"
    and first: "find (\<lambda>i. ci_stock i < ci_quantity i) (select_cart_items E s) = Some item"
    by blast
  note a = checkout_insufficient [OF first, of user req]
  from a show "snd (checkout E user req s) = s" by simp
  from a item first
  show "\<exists>item \<in> set (select_cart_items E s). ci_stock item < ci_quantity item
            \<and> find (\<lambda>i. ci_stock i < ci_quantity i) (select_cart_items E s) = Some item
            \<and> fst (checkout E user req s) =
                (if decrements_fit
                      (takeWhile (\<lambda>i. ci_quantity i \<le> ci_stock i) (select_cart_items E s))
                      (products s)
                 then reply 400 (Message (''Insufficient stock for product ID ''
                                            @ show_int (ci_product_id item) @ ''.''))
                 else no_response)"
    by (intro bexI [of _ item]) simp_all
next
  assume ok: "status (fst (checkout E user req s)) = 200"
  show "products (snd (checkout E user req s)) =
          map (\<lambda>p. p\<lparr>p_stock := p_stock p - requested (select_cart_items E s) (p_id p)\<rparr>)
            (products s)"
    by (rule checkout_stock_after [OF ok])
  {
    assume "\<forall>p \<in> set (products s). requested (select_cart_items E s) (p_id p) \<le> p_stock p"
    from checkout_keeps_stock_nonnegative [OF ok this]
    show "\<forall>p \<in> set (products (snd (checkout E user req s))). 0 \<le> p_stock p" .
  }
  {
    assume "distinct (map ci_product_id (select_cart_items E s))
             \<and> (\<forall>p \<in> set (products s). 0 \<le> p_stock p)"
    then have "\<forall>p \<in> set (products s). requested (select_cart_items E s) (p_id p) \<le> p_stock p"
      by (intro distinct_lines_within [OF ok]) simp_all
    from checkout_keeps_stock_nonnegative [OF ok this]
    show "\<forall>p \<in> set (products (snd (checkout E user req s))). 0 \<le> p_stock p" .
  }
next
  assume h: "to_int4 E (JStr (param_id r)) = Inr (Some i)
        \<and> req_body r ''stock'' = JNum (of_int n) \<and> in_int4 n
        \<and> req_body r ''name'' = JUndefined \<and> req_body r ''description'' = JUndefined
        \<and> req_body r ''price'' = JUndefined \<and> req_body r ''image_url'' = JUndefined
        \<and> (\<exists>p \<in> set (products s). p_id p = i)"
  then have u: "status (fst (update_product E user r s)) = 200
       \<and> products (snd (update_product E user r s)) =
           map (\<lambda>p. if p_id p = i then p\<lparr>p_stock := n\<rparr> else p) (products s)"
    by (intro update_product_stock) simp_all
  from u show "status (fst (update_product E user r s)) = 200" by simp
  from u show "products (snd (update_product E user r s)) =
           map (\<lambda>p. if p_id p = i then p\<lparr>p_stock := n\<rparr> else p) (products s)"
    by simp
qed

theorem stock_guard_witness:
  "(\<exists>item \<in> set (select_cart_items sample_env cart_short_keyboards).
       ci_stock item < ci_quantity item)
   \<and> map (\<lambda>item. (ci_product_id item, ci_quantity item, ci_stock item))
         (select_cart_items sample_env cart_short_keyboards) = [(1, 2, 100), (2, 60, 50)]
   \<and> decrements_fit
         (takeWhile (\<lambda>i. ci_quantity i \<le> ci_stock i)
            (select_cart_items sample_env cart_short_keyboards))
         (products cart_short_keyboards)
   \<and> checkout sample_env user1 checkout_request cart_short_keyboards =
       (reply 400 (Message ''Insufficient stock for product ID 2.''), cart_short_keyboards)
   \<and> (\<exists>item \<in> set (select_cart_items sample_env cart_overflow_then_short).
         ci_stock item < ci_quantity item)
   \<and> map (\<lambda>item. (ci_product_id item, ci_quantity item, ci_stock item))
         (select_cart_items sample_env cart_overflow_then_short) =
       [(1, - 2147483648, 100), (2, 60, 50)]
   \<and> \<not> decrements_fit
          (takeWhile (\<lambda>i. ci_quantity i \<le> ci_stock i)
             (select_cart_items sample_env cart_overflow_then_short))
          (products cart_overflow_then_short)
   \<and> checkout sample_env user1 checkout_request cart_overflow_then_short =
       (no_response, cart_overflow_then_short)
   \<and> status (fst (checkout sample_env user1 checkout_request cart_all_mice)) = 200
   \<and> map (\<lambda>item. (ci_product_id item, ci_quantity item, ci_stock item))
         (select_cart_items sample_env cart_all_mice) = [(1, 60, 100), (1, 40, 100)]
   \<and> list_all (\<lambda>p. requested (select_cart_items sample_env cart_all_mice) (p_id p) \<le> p_stock p)
         (products cart_all_mice)
   \<and> map p_stock (products (snd (checkout sample_env user1 checkout_request cart_all_mice))) =
       [0, 50]
   \<and> list_all (\<lambda>p. 0 \<le> p_stock p)
         (products (snd (checkout sample_env user1 checkout_request cart_all_mice)))
   \<and> to_int4 sample_env (JStr (param_id negative_stock_request)) = Inr (Some 2)
   \<and> req_body negative_stock_request ''stock'' = JNum (of_int (- 5))
   \<and> products (snd (update_product sample_env user1 negative_stock_request seed_db)) =
       map (\<lambda>p. if p_id p = 2 then p\<lparr>p_stock := - 5\<rparr> else p) (products seed_db)"
proof -
  have short: "\<exists>item \<in> set (select_cart_items sample_env cart_short_keyboards).
                 ci_stock item < ci_quantity item"
    by code_simp
  have lines1: "map (\<lambda>item. (ci_product_id item, ci_quantity item, ci_stock item))
         (select_cart_items sample_env cart_short_keyboards) = [(1, 2, 100), (2, 60, 50)]"
    by code_simp
  have fit: "decrements_fit
         (takeWhile (\<lambda>i. ci_quantity i \<le> ci_stock i)
            (select_cart_items sample_env cart_short_keyboards))
         (products cart_short_keyboards)"
    by code_simp
  have first: "map ci_product_id
         (filter (\<lambda>i. ci_stock i < ci_quantity i)
            (select_cart_items sample_env cart_short_keyboards)) = [2]"
    by code_simp
  have two: "show_int 2 = ''2''"
    by code_simp
  have short': "\<exists>item \<in> set (select_cart_items sample_env cart_overflow_then_short).
                 ci_stock item < ci_quantity item"
    by code_simp
  have lines2: "map (\<lambda>item. (ci_product_id item, ci_quantity item, ci_stock item))
         (select_cart_items sample_env cart_overflow_then_short) =
       [(1, - 2147483648, 100), (2, 60, 50)]"
    by code_simp
  have unfit: "\<not> decrements_fit
          (takeWhile (\<lambda>i. ci_quantity i \<le> ci_stock i)
             (select_cart_items sample_env cart_overflow_then_short))
          (products cart_overflow_then_short)"
    by code_simp
  have ok: "status (fst (checkout sample_env user1 checkout_request cart_all_mice)) = 200"
    by code_simp
  have lines: "map (\<lambda>item. (ci_product_id item, ci_quantity item, ci_stock item))
         (select_cart_items sample_env cart_all_mice) = [(1, 60, 100), (1, 40, 100)]"
    by code_simp
  have within': "list_all
         (\<lambda>p. requested (select_cart_items sample_env cart_all_mice) (p_id p) \<le> p_stock p)
         (products cart_all_mice)"
    by code_simp
  then have within: "\<forall>p \<in> set (products cart_all_mice).
         requested (select_cart_items sample_env cart_all_mice) (p_id p) \<le> p_stock p"
    by (simp add: list_all_iff)
  have after: "map p_stock
         (map (\<lambda>p. p\<lparr>p_stock := p_stock p
                      - requested (select_cart_items sample_env cart_all_mice) (p_id p)\<rparr>)
            (products cart_all_mice)) = [0, 50]"
    by code_simp
  have i: "to_int4 sample_env (JStr (param_id negative_stock_request)) = Inr (Some 2)"
    by code_simp
  have st: "req_body negative_stock_request ''stock'' = JNum (of_int (- 5))"
    by (simp add: negative_stock_request_def bearer_request_def json_body_def)
  have r: "in_int4 (- 5)"
    "req_body negative_stock_request ''name'' = JUndefined"
    "req_body negative_stock_request ''description'' = JUndefined"
    "req_body negative_stock_request ''price'' = JUndefined"
    "req_body negative_stock_request ''image_url'' = JUndefined"
    by (simp_all add: in_int4_def negative_stock_request_def bearer_request_def json_body_def)
  have ex: "\<exists>p \<in> set (products seed_db). p_id p = 2"
    by (simp add: seed_db_def)
  note a = stock_guard [where s = cart_short_keyboards and user = user1 and E = sample_env
      and req = checkout_request, THEN conjunct1]
  note a' = stock_guard [where s = cart_overflow_then_short and user = user1
      and E = sample_env and req = checkout_request, THEN conjunct1]
  note b = stock_guard [where s = cart_all_mice and user = user1 and E = sample_env
      and req = checkout_request, THEN conjunct2, THEN conjunct1]
  note c = stock_guard [where s = seed_db and user = user1 and E = sample_env
      and r = negative_stock_request and i = 2 and n = "- 5", THEN conjunct2, THEN conjunct2]
  from a short
  have "snd (checkout sample_env user1 checkout_request cart_short_keyboards) =
           cart_short_keyboards
        \<and> (\<exists>item \<in> set (select_cart_items sample_env cart_short_keyboards).
              ci_stock item < ci_quantity item
              \<and> fst (checkout sample_env user1 checkout_request cart_short_keyboards) =
                  (if decrements_fit
                        (takeWhile (\<lambda>i. ci_quantity i \<le> ci_stock i)
                           (select_cart_items sample_env cart_short_keyboards))
                        (products cart_short_keyboards)
                   then reply 400 (Message (''Insufficient stock for product ID ''
                                              @ show_int (ci_product_id item) @ ''.''))
                   else no_response))"
    by blast
  with fit obtain item where
    s1: "snd (checkout sample_env user1 checkout_request cart_short_keyboards) =
           cart_short_keyboards"
    and m1: "item \<in> set (select_cart_items sample_env cart_short_keyboards)"
      "ci_stock item < ci_quantity item"
    and f1: "fst (checkout sample_env user1 checkout_request cart_short_keyboards) =
           reply 400 (Message (''Insufficient stock for product ID ''
                                 @ show_int (ci_product_id item) @ ''.''))"
    by (simp only: if_True) blast
  from m1 have "ci_product_id item \<in> set (map ci_product_id
         (filter (\<lambda>i. ci_stock i < ci_quantity i)
            (select_cart_items sample_env cart_short_keyboards)))"
    by simp
  with first have "ci_product_id item = 2" by simp
  with f1 two s1
  have 1: "checkout sample_env user1 checkout_request cart_short_keyboards =
       (reply 400 (Message ''Insufficient stock for product ID 2.''), cart_short_keyboards)"
    by (simp add: prod_eq_iff)
  from a' short'
  have "snd (checkout sample_env user1 checkout_request cart_overflow_then_short) =
           cart_overflow_then_short
        \<and> (\<exists>item \<in> set (select_cart_items sample_env cart_overflow_then_short).
              fst (checkout sample_env user1 checkout_request cart_overflow_then_short) =
                  (if decrements_fit
                        (takeWhile (\<lambda>i. ci_quantity i \<le> ci_stock i)
                           (select_cart_items sample_env cart_overflow_then_short))
                        (products cart_overflow_then_short)
                   then reply 400 (Message (''Insufficient stock for product ID ''
                                              @ show_int (ci_product_id item) @ ''.''))
                   else no_response))"
    by blast
  with unfit
  have 4: "checkout sample_env user1 checkout_request cart_overflow_then_short =
       (no_response, cart_overflow_then_short)"
    by (simp only: if_False prod_eq_iff fst_conv snd_conv) blast
  from b ok within
  have 2: "products (snd (checkout sample_env user1 checkout_request cart_all_mice)) =
          map (\<lambda>p. p\<lparr>p_stock := p_stock p
                       - requested (select_cart_items sample_env cart_all_mice) (p_id p)\<rparr>)
            (products cart_all_mice)"
    and "\<forall>p \<in> set (products (snd (checkout sample_env user1 checkout_request cart_all_mice))).
           0 \<le> p_stock p"
    by blast+
  then have 5: "list_all (\<lambda>p. 0 \<le> p_stock p)
         (products (snd (checkout sample_env user1 checkout_request cart_all_mice)))"
    by (simp add: list_all_iff)
  from 2 after
  have 6: "map p_stock (products (snd (checkout sample_env user1 checkout_request
               cart_all_mice))) = [0, 50]"
    by simp
  from c i st r ex
  have 3: "products (snd (update_product sample_env user1 negative_stock_request seed_db)) =
       map (\<lambda>p. if p_id p = 2 then p\<lparr>p_stock := - 5\<rparr> else p) (products seed_db)"
    by blast
  from short lines1 fit 1 short' lines2 unfit 4 ok lines within' 5 6 i st 3
  show ?thesis by blast
qed

text \<open>
  C2 as stated fails. A product update with stock \<open>-5\<close> is answered 200 and stores \<open>-5\<close>.
  A cart with two lines of sixty mice each passes the check of each line against the stock
  of one hundred, and the checkout answers 200 and leaves a stock of \<open>-20\<close>.
\<close>

theorem stock_goes_negative:
  "status (fst (api_update_product sample_env negative_stock_request seed_db)) = 200
   \<and> map p_stock (products (snd (api_update_product sample_env negative_stock_request seed_db)))
       = [100, - 5]
   \<and> map (\<lambda>item. (ci_product_id item, ci_quantity item, ci_stock item))
         (select_cart_items sample_env cart_twice_sixty_mice) = [(1, 60, 100), (1, 60, 100)]
   \<and> status (fst (api_checkout sample_env checkout_request cart_twice_sixty_mice)) = 200
   \<and> map p_stock (products (snd (api_checkout sample_env checkout_request
         cart_twice_sixty_mice))) = [- 20, 50]"
  by code_simp

section \<open>The total of a checkout\<close>

text \<open>
  When every item passes the check against the stock read with it, the loop ends with the
  total, whatever becomes of the stock updates.
\<close>

lemma verify_loop_total:
  "\<forall>item \<in> set items. ci_quantity item \<le> ci_stock item \<Longrightarrow>
     fst (verify_loop F items k tot ups t) = Verified (js_total tot items)"
proof (induction items arbitrary: k tot ups t)
  case Nil
  then show ?case by (simp add: js_total_Nil)
next
  case (Cons item items)
  from Cons.prems have pass: "\<not> ci_stock item < ci_quantity item"
    and rest: "\<forall>item \<in> set items. ci_quantity item \<le> ci_stock item"
    by simp_all
  obtain u t1 where
    u: "update_stock (F (UpdateStock k)) (ci_quantity item) (ci_product_id item) t = (u, t1)"
    by (cases "update_stock (F (UpdateStock k)) (ci_quantity item) (ci_product_id item) t")
  from Cons.IH [OF rest] pass u show ?case
    by (simp add: js_total_Cons)
qed

text \<open>
  C5, as the code has it. For a cart whose lines all pass the stock check, the loop of
  the checkout computes the total in binary64 arithmetic over the rows of the cart in the
  order in which the store returns them: for each row in turn the double nearest to its
  price is multiplied by the quantity and added, each product and each sum rounded to the
  nearest double; a successful checkout answers this total. The rows are the lines
  without an order with their products, each once. The total is the exact sum of
  quantity times price when every price is a whole number in the range of the column and
  the absolute values of the line amounts sum to less than \<open>2^53\<close>; it is NaN when a price
  is NaN.
\<close>

theorem checkout_total_binary64:
  "((\<forall>item \<in> set (select_cart_items E s). ci_quantity item \<le> ci_stock item) \<longrightarrow>
      fst (verify_loop F (select_cart_items E s) 0 (Fin 0) [] (begin_txn s)) =
        Verified (js_total (Fin 0) (select_cart_items E s)))
   \<and> (status (fst (checkout E user req s)) = 200 \<longrightarrow>
        body (fst (checkout E user req s)) =
          CheckoutBody ''Checkout successful!'' (orders_id_seq s + 1)
            (js_total (Fin 0) (select_cart_items E s)))
   \<and> mset (select_cart_items E s) = mset (map cart_item_of (join_rows s))
   \<and> ((\<forall>item \<in> set (select_cart_items E s). whole_price (ci_price item))
       \<and> (\<Sum>item\<leftarrow>select_cart_items E s. \<bar>ci_quantity item * units (ci_price item)\<bar>)
           < 2 ^ 53 \<longrightarrow>
       js_total (Fin 0) (select_cart_items E s) = exact_total (select_cart_items E s))
   \<and> ((\<exists>item \<in> set (select_cart_items E s). ci_price item = NumericNaN) \<longrightarrow>
       js_total (Fin 0) (select_cart_items E s) = NaN)"
proof (intro impI conjI)
  assume "\<forall>item \<in> set (select_cart_items E s). ci_quantity item \<le> ci_stock item"
  then show "fst (verify_loop F (select_cart_items E s) 0 (Fin 0) [] (begin_txn s)) =
        Verified (js_total (Fin 0) (select_cart_items E s))"
    by (rule verify_loop_total)
next
  assume "status (fst (checkout E user req s)) = 200"
  then have ok: "status (fst (checkout_under (\<lambda>st. False) E user req s)) = 200"
    by (simp add: checkout_def)
  from checkout_under_success [OF ok]
  show "body (fst (checkout E user req s)) =
       CheckoutBody ''Checkout successful!'' (orders_id_seq s + 1)
         (js_total (Fin 0) (select_cart_items E s))"
    unfolding checkout_def by auto
next
  show "mset (select_cart_items E s) = mset (map cart_item_of (join_rows s))"
    by (rule mset_select_cart_items)
next
  assume h: "(\<forall>item \<in> set (select_cart_items E s). whole_price (ci_price item))
         \<and> (\<Sum>item\<leftarrow>select_cart_items E s. \<bar>ci_quantity item * units (ci_price item)\<bar>)
             < 2 ^ 53"
  then have "js_total (Fin 0) (select_cart_items E s) =
       Fin (of_int (\<Sum>item\<leftarrow>select_cart_items E s. ci_quantity item * units (ci_price item)))"
    by (intro js_total_exact_0) simp_all
  moreover from h have "exact_total (select_cart_items E s) =
       Fin (of_int (\<Sum>item\<leftarrow>select_cart_items E s. ci_quantity item * units (ci_price item)))"
    by (intro exact_total_whole) simp
  ultimately show "js_total (Fin 0) (select_cart_items E s) =
      exact_total (select_cart_items E s)"
    by simp
next
  assume "\<exists>item \<in> set (select_cart_items E s). ci_price item = NumericNaN"
  then show "js_total (Fin 0) (select_cart_items E s) = NaN"
    by (rule js_total_NaN_price)
qed

theorem checkout_total_binary64_witness:
  "status (fst (checkout sample_env user1 checkout_request cart_round_prices)) = 200
   \<and> map (\<lambda>item. (ci_quantity item, ci_price item, ci_stock item))
         (select_cart_items sample_env cart_round_prices) =
       [(2, Cents 3000, 100), (3, Cents 9000, 50)]
   \<and> list_all (\<lambda>item. ci_quantity item \<le> ci_stock item)
         (select_cart_items sample_env cart_round_prices)
   \<and> list_all (\<lambda>item. whole_price (ci_price item))
         (select_cart_items sample_env cart_round_prices)
   \<and> (\<Sum>item\<leftarrow>select_cart_items sample_env cart_round_prices.
         \<bar>ci_quantity item * units (ci_price item)\<bar>) < 2 ^ 53
   \<and> fst (verify_loop second_decrement_fails (select_cart_items sample_env cart_round_prices)
            0 (Fin 0) [] (begin_txn cart_round_prices)) = Verified (Fin 330)
   \<and> body (fst (checkout sample_env user1 checkout_request cart_round_prices)) =
       CheckoutBody ''Checkout successful!'' 1 (Fin 330)
   \<and> status (fst (checkout sample_env user1 checkout_request cart_three_lines)) = 200
   \<and> map (\<lambda>item. (ci_quantity item, ci_price item))
         (select_cart_items sample_env cart_three_lines) =
       [(2, Cents 2550), (1, Cents 8999), (2, Cents 8999)]
   \<and> body (fst (checkout sample_env user1 checkout_request cart_three_lines)) =
       CheckoutBody ''Checkout successful!'' 1 (Fin (1411640988669051 / 4398046511104))
   \<and> status (fst (checkout sample_env user1 checkout_request cart_nan_mouse)) = 200
   \<and> (\<exists>item \<in> set (select_cart_items sample_env cart_nan_mouse). ci_price item = NumericNaN)
   \<and> body (fst (checkout sample_env user1 checkout_request cart_nan_mouse)) =
       CheckoutBody ''Checkout successful!'' 1 NaN"
proof -
  have ok: "status (fst (checkout sample_env user1 checkout_request cart_round_prices)) = 200"
    by code_simp
  have lines: "map (\<lambda>item. (ci_quantity item, ci_price item, ci_stock item))
         (select_cart_items sample_env cart_round_prices) =
       [(2, Cents 3000, 100), (3, Cents 9000, 50)]"
    by code_simp
  have pass': "list_all (\<lambda>item. ci_quantity item \<le> ci_stock item)
         (select_cart_items sample_env cart_round_prices)"
    by code_simp
  then have pass: "\<forall>item \<in> set (select_cart_items sample_env cart_round_prices).
         ci_quantity item \<le> ci_stock item"
    by (simp add: list_all_iff)
  have whole': "list_all (\<lambda>item. whole_price (ci_price item))
         (select_cart_items sample_env cart_round_prices)"
    by code_simp
  then have whole: "\<forall>item \<in> set (select_cart_items sample_env cart_round_prices).
         whole_price (ci_price item)"
    by (simp add: list_all_iff)
  have small: "(\<Sum>item\<leftarrow>select_cart_items sample_env cart_round_prices.
         \<bar>ci_quantity item * units (ci_price item)\<bar>) < 2 ^ 53"
    by code_simp
  have exact: "exact_total (select_cart_items sample_env cart_round_prices) = Fin 330"
    by code_simp
  have seq: "orders_id_seq cart_round_prices + 1 = 1"
    by code_simp
  have ok3: "status (fst (checkout sample_env user1 checkout_request cart_three_lines)) = 200"
    by code_simp
  have lines3: "map (\<lambda>item. (ci_quantity item, ci_price item))
         (select_cart_items sample_env cart_three_lines) =
       [(2, Cents 2550), (1, Cents 8999), (2, Cents 8999)]"
    by code_simp
  have total3: "js_total (Fin 0) (select_cart_items sample_env cart_three_lines) =
       Fin (1411640988669051 / 4398046511104)"
    by code_simp
  have seq3: "orders_id_seq cart_three_lines + 1 = 1"
    by code_simp
  have okn: "status (fst (checkout sample_env user1 checkout_request cart_nan_mouse)) = 200"
    by code_simp
  have nan: "\<exists>item \<in> set (select_cart_items sample_env cart_nan_mouse).
               ci_price item = NumericNaN"
    by code_simp
  have seqn: "orders_id_seq cart_nan_mouse + 1 = 1"
    by code_simp
  from checkout_total_binary64 [of sample_env cart_round_prices second_decrement_fails
      user1 checkout_request] ok pass whole small
  have "fst (verify_loop second_decrement_fails (select_cart_items sample_env cart_round_prices)
            0 (Fin 0) [] (begin_txn cart_round_prices)) =
          Verified (js_total (Fin 0) (select_cart_items sample_env cart_round_prices))
   \<and> body (fst (checkout sample_env user1 checkout_request cart_round_prices)) =
       CheckoutBody ''Checkout successful!'' (orders_id_seq cart_round_prices + 1)
         (js_total (Fin 0) (select_cart_items sample_env cart_round_prices))
   \<and> js_total (Fin 0) (select_cart_items sample_env cart_round_prices) =
       exact_total (select_cart_items sample_env cart_round_prices)"
    by blast
  with exact seq
  have 1: "fst (verify_loop second_decrement_fails
                 (select_cart_items sample_env cart_round_prices)
                 0 (Fin 0) [] (begin_txn cart_round_prices)) = Verified (Fin 330)
   \<and> body (fst (checkout sample_env user1 checkout_request cart_round_prices)) =
       CheckoutBody ''Checkout successful!'' 1 (Fin 330)"
    by simp
  from checkout_total_binary64 [of sample_env cart_three_lines no_failure
      user1 checkout_request] ok3
  have "body (fst (checkout sample_env user1 checkout_request cart_three_lines)) =
       CheckoutBody ''Checkout successful!'' (orders_id_seq cart_three_lines + 1)
         (js_total (Fin 0) (select_cart_items sample_env cart_three_lines))"
    by blast
  with total3 seq3
  have 2: "body (fst (checkout sample_env user1 checkout_request cart_three_lines)) =
       CheckoutBody ''Checkout successful!'' 1 (Fin (1411640988669051 / 4398046511104))"
    by simp
  from checkout_total_binary64 [of sample_env cart_nan_mouse no_failure
      user1 checkout_request] okn nan
  have "body (fst (checkout sample_env user1 checkout_request cart_nan_mouse)) =
       CheckoutBody ''Checkout successful!'' (orders_id_seq cart_nan_mouse + 1)
         (js_total (Fin 0) (select_cart_items sample_env cart_nan_mouse))
   \<and> js_total (Fin 0) (select_cart_items sample_env cart_nan_mouse) = NaN"
    by blast
  with seqn
  have 3: "body (fst (checkout sample_env user1 checkout_request cart_nan_mouse)) =
       CheckoutBody ''Checkout successful!'' 1 NaN"
    by simp
  from ok lines pass' whole' small 1 ok3 lines3 2 okn nan 3 show ?thesis by blast
qed

text \<open>
  C5 as stated fails. Three keyboards at 89.99 are 269.97; the checkout answers the double
  that prints as 269.96999999999997, which is neither 269.97 nor the double nearest to it.
\<close>

theorem total_drifts_for_cent_prices:
  "map (\<lambda>oi. (oi_quantity oi, oi_price oi)) (order_items cart_three_keyboards) =
     [(3, Cents 8999)]
   \<and> exact_total (select_cart_items sample_env cart_three_keyboards) = Fin (26997 / 100)
   \<and> fst (api_checkout sample_env checkout_request cart_three_keyboards) =
       reply 200 (CheckoutBody ''Checkout successful!'' 1
         (Fin (4749362466410987 / 17592186044416)))
   \<and> (4749362466410987 / 17592186044416 :: rat) \<noteq> 26997 / 100
   \<and> (4749362466410987 / 17592186044416 :: rat) \<noteq> round_double (26997 / 100)
   \<and> number_decimal (4749362466410987 / 17592186044416) =
       26996999999999997 / 100000000000000"
  by code_simp

text \<open>
  The total depends on the order of the rows. Two mice at 25.50, one keyboard and two
  keyboards at 89.99 are 320.97. Added in the order of the lines, the total is the double
  nearest to 320.97; with the lines of the keyboard first, it is the double below, which
  prints as 320.96999999999997.
\<close>

lemma total_depends_on_row_order:
  "mset (select_cart_items keyboards_first_env cart_three_lines) =
     mset (select_cart_items sample_env cart_three_lines)
   \<and> exact_total (select_cart_items sample_env cart_three_lines) = Fin (32097 / 100)
   \<and> fst (checkout sample_env user1 checkout_request cart_three_lines) =
       reply 200 (CheckoutBody ''Checkout successful!'' 1
         (Fin (1411640988669051 / 4398046511104)))
   \<and> round_double (32097 / 100) = 1411640988669051 / 4398046511104
   \<and> fst (checkout keyboards_first_env user1 checkout_request cart_three_lines) =
       reply 200 (CheckoutBody ''Checkout successful!'' 1
         (Fin (5646563954676203 / 17592186044416)))
   \<and> number_decimal (5646563954676203 / 17592186044416) =
       32096999999999997 / 100000000000000"
proof (intro conjI)
  show "mset (select_cart_items keyboards_first_env cart_three_lines) =
     mset (select_cart_items sample_env cart_three_lines)"
    by (simp only: mset_select_cart_items)
qed code_simp+

end
